theory Spec2Isabelle
  imports Complex_Main "HOL-Library.AList"
begin

section \<open>Python values and exceptions\<close>

text \<open>
  The element and the acquirer pass untyped Python values around (\<open>value: Any\<close>).
  They are the values of \<open>pyval\<close>. A Python \<open>float\<close> is modelled by a real number:
  the finite floats without rounding, no NaN and no infinities.
\<close>

datatype pyval = PNone | PBool bool | PInt int | PFloat real | PStr string

text \<open>The texts of the exceptions raised in \<open>pyspinsrc.py\<close>, one constructor per message.\<close>

datatype node_kind = KInteger | KFloat | KBoolean | KEnumeration | KString | KCommand

datatype reason =
    NoDeviceAvailable "string option" "nat option"
  | SpinnakerError
  | NoDeviceInitialized
  | NoDeviceSelected
  | NodeNotAvailable string
  | TypeNotDetermined string
  | NoGetter node_kind
  | NoSetter node_kind
  | UnknownType string
  | RangeNotAvailable string
  | NotReadable node_kind
  | NotWritable node_kind
  | EntryNotAvailable pyval
  | CommandNotWritable string

datatype exc =
    ValueError reason
  | NotImplementedError reason
  | TypeError
  | AttributeError
  | ZeroDivisionError
  | SpinnakerException

text \<open>
  A method that may raise and that mutates \<open>self\<close> is a function from the state to
  a result (\<open>Inl\<close> the exception raised) and the state it leaves behind: the mutations
  made before a \<open>raise\<close> stay made.
\<close>

type_synonym ('a, 's) prog = "'s \<Rightarrow> (exc + 'a) \<times> 's"

definition returnE :: "'a \<Rightarrow> ('a, 's) prog" where
  "returnE x s = (Inr x, s)"

definition raiseE :: "exc \<Rightarrow> ('a, 's) prog" where
  "raiseE e s = (Inl e, s)"

definition bindE :: "('a, 's) prog \<Rightarrow> ('a \<Rightarrow> ('b, 's) prog) \<Rightarrow> ('b, 's) prog" where
  "bindE m f s = (case m s of (Inl e, s') \<Rightarrow> (Inl e, s') | (Inr x, s') \<Rightarrow> f x s')"

definition thenE :: "('a, 's) prog \<Rightarrow> ('b, 's) prog \<Rightarrow> ('b, 's) prog" where
  "thenE m n = bindE m (\<lambda>_. n)"

text \<open>\<open>except (ValueError, NotImplementedError)\<close>: the two classes the helpers catch.\<close>

fun is_value_or_not_implemented :: "exc \<Rightarrow> bool" where
  "is_value_or_not_implemented (ValueError _) = True"
| "is_value_or_not_implemented (NotImplementedError _) = True"
| "is_value_or_not_implemented _ = False"

fun is_value_error :: "exc \<Rightarrow> bool" where
  "is_value_error (ValueError _) = True"
| "is_value_error _ = False"

subsection \<open>The built-ins used on values\<close>

fun num_val :: "pyval \<Rightarrow> real option" where
  "num_val (PBool b) = Some (if b then 1 else 0)"
| "num_val (PInt i) = Some (of_int i)"
| "num_val (PFloat r) = Some r"
| "num_val _ = None"

text \<open>
  \<open>a < b\<close>: numbers (and booleans) compare by value, strings by code points; every
  other pairing raises TypeError.
\<close>

definition py_less :: "pyval \<Rightarrow> pyval \<Rightarrow> exc + bool" where
  "py_less a b =
     (case (num_val a, num_val b) of
        (Some x, Some y) \<Rightarrow> Inr (x < y)
      | _ \<Rightarrow>
        (case (a, b) of
           (PStr s, PStr t) \<Rightarrow> Inr (lexordp (\<lambda>c d. (of_char c :: nat) < of_char d) s t)
         | _ \<Rightarrow> Inl TypeError))"

text \<open>\<open>a > b\<close> is \<open>b < a\<close>, and \<open>a >= b\<close> on numbers is \<open>not a < b\<close>.\<close>

definition py_greater :: "pyval \<Rightarrow> pyval \<Rightarrow> exc + bool" where
  "py_greater a b = py_less b a"

definition py_ge_num :: "pyval \<Rightarrow> int \<Rightarrow> exc + bool" where
  "py_ge_num a n = (case num_val a of Some x \<Rightarrow> Inr (of_int n \<le> x) | None \<Rightarrow> Inl TypeError)"

text \<open>\<open>max(a, b)\<close> keeps \<open>a\<close> unless \<open>b > a\<close>; \<open>min(a, b)\<close> keeps \<open>a\<close> unless \<open>b < a\<close>.\<close>

definition py_max :: "pyval \<Rightarrow> pyval \<Rightarrow> exc + pyval" where
  "py_max a b = (case py_greater b a of Inl e \<Rightarrow> Inl e | Inr g \<Rightarrow> Inr (if g then b else a))"

definition py_min :: "pyval \<Rightarrow> pyval \<Rightarrow> exc + pyval" where
  "py_min a b = (case py_less b a of Inl e \<Rightarrow> Inl e | Inr l \<Rightarrow> Inr (if l then b else a))"

text \<open>
  \<open>int(v)\<close> and \<open>float(v)\<close>. Both are reached only after \<open>max\<close> and \<open>min\<close> against
  the node's numeric bounds went through, that is on a boolean, an integer or a float;
  \<open>int\<close> of a float truncates towards zero. On \<open>None\<close> they raise TypeError; a string
  never reaches them.
\<close>

fun py_int :: "pyval \<Rightarrow> exc + int" where
  "py_int (PBool b) = Inr (if b then 1 else 0)"
| "py_int (PInt i) = Inr i"
| "py_int (PFloat r) = Inr (if 0 \<le> r then \<lfloor>r\<rfloor> else \<lceil>r\<rceil>)"
| "py_int _ = Inl TypeError"

fun py_float :: "pyval \<Rightarrow> exc + real" where
  "py_float (PBool b) = Inr (if b then 1 else 0)"
| "py_float (PInt i) = Inr (of_int i)"
| "py_float (PFloat r) = Inr r"
| "py_float _ = Inl TypeError"

fun py_bool :: "pyval \<Rightarrow> bool" where
  "py_bool PNone = False"
| "py_bool (PBool b) = b"
| "py_bool (PInt i) = (i \<noteq> 0)"
| "py_bool (PFloat r) = (r \<noteq> 0)"
| "py_bool (PStr s) = (s \<noteq> [])"

text \<open>\<open>str(v)\<close>: decimal digits for an integer.\<close>

fun digits :: "nat \<Rightarrow> string" where
  "digits n =
     (if n < 10 then [char_of (48 + n)]
      else digits (n div 10) @ [char_of (48 + n mod 10)])"

definition str_int :: "int \<Rightarrow> string" where
  "str_int i = (if i < 0 then CHR ''-'' # digits (nat (- i)) else digits (nat i))"

text \<open>
  The text Python prints for a float is not modelled: \<open>float_repr\<close> is left
  unspecified, so nothing is provable about the entry a float would name.
\<close>

definition float_repr :: "real \<Rightarrow> string" where
  "float_repr r = undefined r"

fun py_str :: "pyval \<Rightarrow> string" where
  "py_str PNone = ''None''"
| "py_str (PBool b) = (if b then ''True'' else ''False'')"
| "py_str (PInt i) = str_int i"
| "py_str (PFloat r) = float_repr r"
| "py_str (PStr s) = s"

text \<open>\<open>str.lower()\<close> on ASCII text.\<close>

definition lower_char :: "char \<Rightarrow> char" where
  "lower_char c =
     (let n = (of_char c :: nat) in if 65 \<le> n \<and> n \<le> 90 then char_of (n + 32) else c)"

definition lower :: "string \<Rightarrow> string" where
  "lower s = map lower_char s"

section \<open>The camera SDK as a scripted stub\<close>

text \<open>
  PySpin is not part of the repository. Its objects are modelled by the state they
  expose to \<open>pyspinsrc.py\<close>: a node carries its access mode and its typed content, a
  camera its three node maps, its lifecycle flags, the captures it will deliver and the
  SDK calls that are scripted to raise \<open>SpinnakerException\<close>.
\<close>

datatype access_mode = NI | NA | WO | RO | RW

record enum_entry =
  symbolic :: string
  entry_access :: access_mode

text \<open>
  An enumeration node holds its entries and the symbolic name of the selected one;
  \<open>SetIntValue(entry.GetValue())\<close> selects \<open>entry\<close>.
\<close>

datatype iface =
    IInteger int int int
  | IFloat real real real
  | IBoolean bool
  | IEnumeration "enum_entry list" string
  | IString string
  | ICommand
  | ICategory

record node =
  access :: access_mode
  has_interface_type :: bool
  content :: iface

text \<open>\<open>IInteger lo hi v\<close> and \<open>IFloat lo hi v\<close>: GetMin, GetMax and the value.\<close>

fun IsAvailable_mode :: "access_mode \<Rightarrow> bool" where
  "IsAvailable_mode NI = False"
| "IsAvailable_mode NA = False"
| "IsAvailable_mode _ = True"

fun IsReadable_mode :: "access_mode \<Rightarrow> bool" where
  "IsReadable_mode RO = True"
| "IsReadable_mode RW = True"
| "IsReadable_mode _ = False"

fun IsWritable_mode :: "access_mode \<Rightarrow> bool" where
  "IsWritable_mode WO = True"
| "IsWritable_mode RW = True"
| "IsWritable_mode _ = False"

definition IsAvailable :: "node \<Rightarrow> bool" where
  "IsAvailable n = IsAvailable_mode (access n)"

definition IsReadable :: "node \<Rightarrow> bool" where
  "IsReadable n = IsReadable_mode (access n)"

definition IsWritable :: "node \<Rightarrow> bool" where
  "IsWritable n = IsWritable_mode (access n)"

record ndarray =
  shape :: "nat list"
  pixels :: "nat list"

record image =
  incomplete :: bool
  image_status :: nat
  array :: ndarray
  time_stamp :: int

datatype sdk_call = CallEndAcquisition | CallDeInit | CallBeginAcquisition

type_synonym node_map = "(string \<times> node) list"

record camera =
  serial_number :: string
  cam_valid :: bool
  cam_initialized :: bool
  cam_streaming :: bool
  dev_nodes :: node_map
  tl_device_nodes :: node_map
  tl_stream_nodes :: node_map
  executed :: "string list"
  pending :: "image list"
  next_image_calls :: nat
  released :: "image list"
  faults :: "sdk_call list"

datatype scope = Device | TLDevice | TLStream

fun scope_nodes :: "scope \<Rightarrow> camera \<Rightarrow> node_map" where
  "scope_nodes Device c = dev_nodes c"
| "scope_nodes TLDevice c = tl_device_nodes c"
| "scope_nodes TLStream c = tl_stream_nodes c"

fun put_node :: "scope \<Rightarrow> string \<Rightarrow> node \<Rightarrow> camera \<Rightarrow> camera" where
  "put_node Device k n c = c\<lparr>dev_nodes := AList.update k n (dev_nodes c)\<rparr>"
| "put_node TLDevice k n c = c\<lparr>tl_device_nodes := AList.update k n (tl_device_nodes c)\<rparr>"
| "put_node TLStream k n c = c\<lparr>tl_stream_nodes := AList.update k n (tl_stream_nodes c)\<rparr>"

section \<open>ImageAcquirer\<close>

text \<open>
  \<open>cameras\<close> is the SDK's world: the cameras of \<open>PySpin.System\<close>, which the
  handles in \<open>_device_list\<close> and \<open>_current_device\<close> point into (a handle is an
  index), so that a camera reached through two handles is one camera. The three cached
  node maps are references into the current camera; the model keeps whether each is
  cached.
\<close>

record image_acquirer =
  cameras :: "camera list"
  instance_released :: bool
  device_list :: "nat list"
  current_device :: "nat option"
  device_node_map :: "scope option"
  tl_device_node_map :: "scope option"
  tl_stream_node_map :: "scope option"

definition cam_of :: "image_acquirer \<Rightarrow> camera option" where
  "cam_of acq =
     (case current_device acq of
        None \<Rightarrow> None
      | Some i \<Rightarrow> if i < length (cameras acq) then Some (cameras acq ! i) else None)"

definition upd_cam :: "(camera \<Rightarrow> camera) \<Rightarrow> image_acquirer \<Rightarrow> image_acquirer" where
  "upd_cam f acq =
     (case current_device acq of
        None \<Rightarrow> acq
      | Some i \<Rightarrow> acq\<lparr>cameras := (cameras acq)[i := f (cameras acq ! i)]\<rparr>)"

text \<open>\<open>self._current_device is not None and self._current_device.IsValid()\<close>\<close>

definition device_selected :: "image_acquirer \<Rightarrow> bool" where
  "device_selected acq = (case cam_of acq of None \<Rightarrow> False | Some c \<Rightarrow> cam_valid c)"

definition get_device_node_map :: "(scope, image_acquirer) prog" where
  "get_device_node_map acq =
     (case cam_of acq of
        None \<Rightarrow> (Inl (ValueError NoDeviceInitialized), acq)
      | Some c \<Rightarrow>
          if cam_valid c \<and> cam_initialized c
          then (Inr Device, acq\<lparr>device_node_map := Some Device\<rparr>)
          else (Inl (ValueError NoDeviceInitialized), acq))"

definition get_tl_device_node_map :: "(scope, image_acquirer) prog" where
  "get_tl_device_node_map acq =
     (if device_selected acq
      then (Inr TLDevice, acq\<lparr>tl_device_node_map := Some TLDevice\<rparr>)
      else (Inl (ValueError NoDeviceSelected), acq))"

definition get_tl_stream_node_map :: "(scope, image_acquirer) prog" where
  "get_tl_stream_node_map acq =
     (if device_selected acq
      then (Inr TLStream, acq\<lparr>tl_stream_node_map := Some TLStream\<rparr>)
      else (Inl (ValueError NoDeviceSelected), acq))"

text \<open>\<open>node_map.GetNode(name)\<close> on the current camera: \<open>None\<close> when the map has no such node.\<close>

definition GetNode :: "scope \<Rightarrow> string \<Rightarrow> image_acquirer \<Rightarrow> node option" where
  "GetNode sc name acq =
     (case cam_of acq of None \<Rightarrow> None | Some c \<Rightarrow> map_of (scope_nodes sc c) name)"

text \<open>
  \<open>_get_node\<close>. A node is a reference in Python; the model returns the scope it was
  found in together with the node read there, and writes go back to that scope.
\<close>

definition get_node :: "string \<Rightarrow> ((scope \<times> node) option, image_acquirer) prog" where
  "get_node node_name =
     bindE get_device_node_map (\<lambda>m1 acq1.
       case GetNode m1 node_name acq1 of
         Some device_node \<Rightarrow> (Inr (Some (m1, device_node)), acq1)
       | None \<Rightarrow>
           bindE get_tl_device_node_map (\<lambda>m2 acq2.
             case GetNode m2 node_name acq2 of
               Some tl_device_node \<Rightarrow> (Inr (Some (m2, tl_device_node)), acq2)
             | None \<Rightarrow>
                 bindE get_tl_stream_node_map (\<lambda>m3 acq3.
                   case GetNode m3 node_name acq3 of
                     Some tl_stream_node \<Rightarrow> (Inr (Some (m3, tl_stream_node)), acq3)
                   | None \<Rightarrow> (Inr None, acq3)) acq2) acq1)"

definition node_available :: "string \<Rightarrow> (bool, image_acquirer) prog" where
  "node_available node_name =
     bindE (get_node node_name) (\<lambda>r.
       returnE (case r of None \<Rightarrow> False | Some (_, n) \<Rightarrow> IsAvailable n))"

subsection \<open>Typed accessors\<close>

text \<open>
  Each typed accessor receives the node cast to its interface (\<open>CIntegerPtr(node)\<close> and
  so on). A node of another interface casts to a null pointer, which is not available.
\<close>

definition liftE :: "exc + 'a \<Rightarrow> ('a, 's) prog" where
  "liftE r s = (r, s)"

definition get_int_node_val :: "node \<Rightarrow> exc + pyval" where
  "get_int_node_val int_node =
     (case content int_node of
        IInteger lo hi v \<Rightarrow>
          if IsAvailable int_node \<and> IsReadable int_node then Inr (PInt v)
          else Inl (ValueError (NotReadable KInteger))
      | _ \<Rightarrow> Inl (ValueError (NotReadable KInteger)))"

text \<open>The message of the range accessor says "not writable" in the source.\<close>

definition get_int_node_range :: "node \<Rightarrow> exc + pyval \<times> pyval" where
  "get_int_node_range int_node =
     (case content int_node of
        IInteger lo hi v \<Rightarrow>
          if IsAvailable int_node \<and> IsReadable int_node then Inr (PInt lo, PInt hi)
          else Inl (ValueError (NotWritable KInteger))
      | _ \<Rightarrow> Inl (ValueError (NotWritable KInteger)))"

definition set_int_node_val ::
  "scope \<Rightarrow> string \<Rightarrow> node \<Rightarrow> pyval \<Rightarrow> (unit, image_acquirer) prog" where
  "set_int_node_val sc name int_node val =
     (case content int_node of
        IInteger lo hi cur \<Rightarrow>
          if IsAvailable int_node \<and> IsWritable int_node then
            bindE (liftE (py_max val (PInt lo))) (\<lambda>v1.
            bindE (liftE (py_min v1 (PInt hi))) (\<lambda>v2.
            bindE (liftE (py_int v2)) (\<lambda>i acq.
              (Inr (), upd_cam (put_node sc name (int_node\<lparr>content := IInteger lo hi i\<rparr>)) acq))))
          else raiseE (ValueError (NotWritable KInteger))
      | _ \<Rightarrow> raiseE (ValueError (NotWritable KInteger)))"

definition get_float_node_val :: "node \<Rightarrow> exc + pyval" where
  "get_float_node_val float_node =
     (case content float_node of
        IFloat lo hi v \<Rightarrow>
          if IsAvailable float_node \<and> IsReadable float_node then Inr (PFloat v)
          else Inl (ValueError (NotReadable KFloat))
      | _ \<Rightarrow> Inl (ValueError (NotReadable KFloat)))"

definition get_float_node_range :: "node \<Rightarrow> exc + pyval \<times> pyval" where
  "get_float_node_range float_node =
     (case content float_node of
        IFloat lo hi v \<Rightarrow>
          if IsAvailable float_node \<and> IsReadable float_node then Inr (PFloat lo, PFloat hi)
          else Inl (ValueError (NotReadable KFloat))
      | _ \<Rightarrow> Inl (ValueError (NotReadable KFloat)))"

definition set_float_node_val ::
  "scope \<Rightarrow> string \<Rightarrow> node \<Rightarrow> pyval \<Rightarrow> (unit, image_acquirer) prog" where
  "set_float_node_val sc name float_node val =
     (case content float_node of
        IFloat lo hi cur \<Rightarrow>
          if IsAvailable float_node \<and> IsWritable float_node then
            bindE (liftE (py_max val (PFloat lo))) (\<lambda>v1.
            bindE (liftE (py_min v1 (PFloat hi))) (\<lambda>v2.
            bindE (liftE (py_float v2)) (\<lambda>r acq.
              (Inr (), upd_cam (put_node sc name (float_node\<lparr>content := IFloat lo hi r\<rparr>)) acq))))
          else raiseE (ValueError (NotWritable KFloat))
      | _ \<Rightarrow> raiseE (ValueError (NotWritable KFloat)))"

definition get_bool_node_val :: "node \<Rightarrow> exc + pyval" where
  "get_bool_node_val bool_node =
     (case content bool_node of
        IBoolean v \<Rightarrow>
          if IsAvailable bool_node \<and> IsReadable bool_node then Inr (PBool v)
          else Inl (ValueError (NotReadable KBoolean))
      | _ \<Rightarrow> Inl (ValueError (NotReadable KBoolean)))"

definition set_bool_node_val ::
  "scope \<Rightarrow> string \<Rightarrow> node \<Rightarrow> pyval \<Rightarrow> (unit, image_acquirer) prog" where
  "set_bool_node_val sc name bool_node val =
     (case content bool_node of
        IBoolean cur \<Rightarrow>
          if IsAvailable bool_node \<and> IsWritable bool_node then
            (\<lambda>acq. (Inr (),
               upd_cam (put_node sc name (bool_node\<lparr>content := IBoolean (py_bool val)\<rparr>)) acq))
          else raiseE (ValueError (NotWritable KBoolean))
      | _ \<Rightarrow> raiseE (ValueError (NotWritable KBoolean)))"

definition entry_usable :: "enum_entry \<Rightarrow> bool" where
  "entry_usable e = (IsAvailable_mode (entry_access e) \<and> IsReadable_mode (entry_access e))"

definition get_available_enum_entries :: "node \<Rightarrow> exc + string list" where
  "get_available_enum_entries enum_node =
     (case content enum_node of
        IEnumeration entries cur \<Rightarrow>
          if IsAvailable enum_node \<and> IsReadable enum_node
          then Inr (map symbolic (filter (\<lambda>pf. IsAvailable_mode (entry_access pf)) entries))
          else Inl (ValueError (NotReadable KEnumeration))
      | _ \<Rightarrow> Inl (ValueError (NotReadable KEnumeration)))"

definition get_enum_node_val :: "node \<Rightarrow> exc + pyval" where
  "get_enum_node_val enum_node =
     (case content enum_node of
        IEnumeration entries cur \<Rightarrow>
          if IsAvailable enum_node \<and> IsReadable enum_node then Inr (PStr cur)
          else Inl (ValueError (NotReadable KEnumeration))
      | _ \<Rightarrow> Inl (ValueError (NotReadable KEnumeration)))"

text \<open>\<open>GetEntryByName\<close> gives a null entry for an unknown name; a null entry is not available.\<close>

definition set_enum_node_val ::
  "scope \<Rightarrow> string \<Rightarrow> node \<Rightarrow> pyval \<Rightarrow> (unit, image_acquirer) prog" where
  "set_enum_node_val sc name enum_node val =
     (case content enum_node of
        IEnumeration entries cur \<Rightarrow>
          if IsAvailable enum_node \<and> IsWritable enum_node then
            (case find (\<lambda>e. symbolic e = py_str val) entries of
               None \<Rightarrow> raiseE (ValueError (EntryNotAvailable val))
             | Some enum_entry \<Rightarrow>
                 if entry_usable enum_entry then
                   (\<lambda>acq. (Inr (),
                      upd_cam (put_node sc name
                        (enum_node\<lparr>content := IEnumeration entries (symbolic enum_entry)\<rparr>)) acq))
                 else raiseE (ValueError (EntryNotAvailable val)))
          else raiseE (ValueError (NotWritable KEnumeration))
      | _ \<Rightarrow> raiseE (ValueError (NotWritable KEnumeration)))"

text \<open>\<open>_execute_command_node\<close> looks the node up again by name.\<close>

definition execute_command_node :: "string \<Rightarrow> (unit, image_acquirer) prog" where
  "execute_command_node node_name =
     bindE (get_node node_name) (\<lambda>r.
       case r of
         Some (sc, command_node) \<Rightarrow>
           (case content command_node of
              ICommand \<Rightarrow>
                if IsAvailable command_node \<and> IsWritable command_node
                then (\<lambda>acq. (Inr (), upd_cam (\<lambda>c. c\<lparr>executed := executed c @ [node_name]\<rparr>) acq))
                else raiseE (ValueError (CommandNotWritable node_name))
            | _ \<Rightarrow> raiseE (ValueError (CommandNotWritable node_name)))
       | None \<Rightarrow> raiseE (ValueError (CommandNotWritable node_name)))"

subsection \<open>Dispatch on the node's interface\<close>

text \<open>
  The \<open>if/elif\<close> chains of \<open>get_node_val\<close>, \<open>set_node_val\<close>, \<open>execute_node\<close>,
  \<open>get_node_range\<close> and \<open>get_node_entries\<close>, from the node that \<open>_get_node\<close> returned.
\<close>

definition read_node :: "string \<Rightarrow> (scope \<times> node) option \<Rightarrow> exc + pyval" where
  "read_node node_name r =
     (case r of
        None \<Rightarrow> Inl (ValueError (NodeNotAvailable node_name))
      | Some (sc, n) \<Rightarrow>
          if has_interface_type n then
            (case content n of
               IInteger _ _ _ \<Rightarrow> get_int_node_val n
             | IFloat _ _ _ \<Rightarrow> get_float_node_val n
             | IBoolean _ \<Rightarrow> get_bool_node_val n
             | IEnumeration _ _ \<Rightarrow> get_enum_node_val n
             | IString _ \<Rightarrow> Inl (NotImplementedError (NoGetter KString))
             | ICommand \<Rightarrow> Inl (NotImplementedError (NoGetter KCommand))
             | ICategory \<Rightarrow> Inl (ValueError (UnknownType node_name)))
          else Inl (ValueError (TypeNotDetermined node_name)))"

definition get_node_val :: "string \<Rightarrow> (pyval, image_acquirer) prog" where
  "get_node_val node_name = bindE (get_node node_name) (\<lambda>r. liftE (read_node node_name r))"

definition write_node ::
  "string \<Rightarrow> (scope \<times> node) option \<Rightarrow> pyval \<Rightarrow> (unit, image_acquirer) prog" where
  "write_node node_name r val =
     (case r of
        None \<Rightarrow> raiseE (ValueError (NodeNotAvailable node_name))
      | Some (sc, n) \<Rightarrow>
          if has_interface_type n then
            (case content n of
               IInteger _ _ _ \<Rightarrow> set_int_node_val sc node_name n val
             | IFloat _ _ _ \<Rightarrow> set_float_node_val sc node_name n val
             | IBoolean _ \<Rightarrow> set_bool_node_val sc node_name n val
             | IEnumeration _ _ \<Rightarrow> set_enum_node_val sc node_name n val
             | IString _ \<Rightarrow> raiseE (NotImplementedError (NoSetter KString))
             | ICommand \<Rightarrow> raiseE (NotImplementedError (NoSetter KCommand))
             | ICategory \<Rightarrow> raiseE (ValueError (UnknownType node_name)))
          else raiseE (ValueError (TypeNotDetermined node_name)))"

definition set_node_val :: "string \<Rightarrow> pyval \<Rightarrow> (unit, image_acquirer) prog" where
  "set_node_val node_name val = bindE (get_node node_name) (\<lambda>r. write_node node_name r val)"

definition execute_node :: "string \<Rightarrow> (unit, image_acquirer) prog" where
  "execute_node node_name =
     bindE (get_node node_name) (\<lambda>r.
       case r of
         None \<Rightarrow> raiseE (ValueError (NodeNotAvailable node_name))
       | Some (sc, n) \<Rightarrow>
           if has_interface_type n then
             (case content n of
                ICommand \<Rightarrow> execute_command_node node_name
              | _ \<Rightarrow> raiseE (ValueError (UnknownType node_name)))
           else raiseE (ValueError (TypeNotDetermined node_name)))"

definition get_node_range :: "string \<Rightarrow> (pyval \<times> pyval, image_acquirer) prog" where
  "get_node_range node_name =
     bindE (get_node node_name) (\<lambda>r.
       case r of
         None \<Rightarrow> raiseE (ValueError (NodeNotAvailable node_name))
       | Some (sc, n) \<Rightarrow>
           if has_interface_type n then
             (case content n of
                IInteger _ _ _ \<Rightarrow> liftE (get_int_node_range n)
              | IFloat _ _ _ \<Rightarrow> liftE (get_float_node_range n)
              | _ \<Rightarrow> raiseE (ValueError (RangeNotAvailable node_name)))
           else raiseE (ValueError (TypeNotDetermined node_name)))"

definition get_node_entries :: "string \<Rightarrow> (string list, image_acquirer) prog" where
  "get_node_entries node_name =
     bindE (get_node node_name) (\<lambda>r.
       case r of
         None \<Rightarrow> raiseE (ValueError (NodeNotAvailable node_name))
       | Some (sc, n) \<Rightarrow>
           if has_interface_type n then
             (case content n of
                IEnumeration _ _ \<Rightarrow> liftE (get_available_enum_entries n)
              | _ \<Rightarrow> raiseE (ValueError (RangeNotAvailable node_name)))
           else raiseE (ValueError (TypeNotDetermined node_name)))"

subsection \<open>Device lifecycle\<close>

text \<open>
  The SDK calls on a camera. A call listed in the camera's \<open>faults\<close> raises
  \<open>SpinnakerException\<close>; \<open>EndAcquisition\<close> also raises on a camera that is not streaming,
  and \<open>BeginAcquisition\<close> on one that is not initialized or streams already.
\<close>

definition EndAcquisition :: "camera \<Rightarrow> exc + camera" where
  "EndAcquisition c =
     (if List.member (faults c) CallEndAcquisition then Inl SpinnakerException
      else if cam_streaming c then Inr (c\<lparr>cam_streaming := False\<rparr>)
      else Inl SpinnakerException)"

definition DeInit :: "camera \<Rightarrow> exc + camera" where
  "DeInit c =
     (if List.member (faults c) CallDeInit then Inl SpinnakerException
      else Inr (c\<lparr>cam_initialized := False\<rparr>))"

definition BeginAcquisition :: "camera \<Rightarrow> exc + camera" where
  "BeginAcquisition c =
     (if List.member (faults c) CallBeginAcquisition then Inl SpinnakerException
      else if cam_initialized c \<and> \<not> cam_streaming c then Inr (c\<lparr>cam_streaming := True\<rparr>)
      else Inl SpinnakerException)"

definition Init :: "camera \<Rightarrow> exc + camera" where
  "Init c = Inr (c\<lparr>cam_initialized := True\<rparr>)"

text \<open>
  \<open>self._current_device.call()\<close>: an attribute of \<open>None\<close> raises AttributeError.
\<close>

definition on_device :: "(camera \<Rightarrow> exc + camera) \<Rightarrow> (unit, image_acquirer) prog" where
  "on_device call acq =
     (case cam_of acq of
        None \<Rightarrow> (Inl AttributeError, acq)
      | Some c \<Rightarrow>
          (case call c of
             Inl e \<Rightarrow> (Inl e, acq)
           | Inr c' \<Rightarrow> (Inr (), upd_cam (\<lambda>_. c') acq)))"

definition IsStreaming :: "image_acquirer \<Rightarrow> bool" where
  "IsStreaming acq = (case cam_of acq of None \<Rightarrow> False | Some c \<Rightarrow> cam_streaming c)"

definition IsInitialized :: "image_acquirer \<Rightarrow> bool" where
  "IsInitialized acq = (case cam_of acq of None \<Rightarrow> False | Some c \<Rightarrow> cam_initialized c)"

text \<open>\<open>__init__\<close>: the SDK instance and its camera list, no device selected.\<close>

definition acquirer_init :: "camera list \<Rightarrow> image_acquirer" where
  "acquirer_init cams =
     \<lparr>cameras = cams, instance_released = False, device_list = [0..<length cams],
      current_device = None, device_node_map = None, tl_device_node_map = None,
      tl_stream_node_map = None\<rparr>"

definition update_device_list :: "image_acquirer \<Rightarrow> image_acquirer" where
  "update_device_list acq = acq\<lparr>device_list := [0..<length (cameras acq)]\<rparr>"

definition get_device_count :: "bool \<Rightarrow> image_acquirer \<Rightarrow> nat \<times> image_acquirer" where
  "get_device_count update_list acq =
     (let acq' = (if update_list then update_device_list acq else acq)
      in (length (device_list acq'), acq'))"

text \<open>\<open>_reset_cam\<close>\<close>

definition reset_cam :: "(unit, image_acquirer) prog" where
  "reset_cam =
     thenE
       (\<lambda>acq.
          if device_selected acq then
            thenE
              (\<lambda>a. if IsStreaming a then on_device EndAcquisition a else (Inr (), a))
              (\<lambda>a. if IsInitialized a then on_device DeInit a else (Inr (), a)) acq
          else (Inr (), acq))
       (\<lambda>acq. (Inr (),
          acq\<lparr>device_node_map := None, tl_device_node_map := None,
              tl_stream_node_map := None, current_device := None\<rparr>))"

text \<open>\<open>__del__\<close>\<close>

definition acquirer_del :: "(unit, image_acquirer) prog" where
  "acquirer_del =
     thenE reset_cam
       (thenE (\<lambda>acq. (Inr (), acq\<lparr>device_list := []\<rparr>))
              (\<lambda>acq. (Inr (), acq\<lparr>instance_released := True\<rparr>)))"

definition end_acquisition :: "(unit, image_acquirer) prog" where
  "end_acquisition acq =
     (case on_device EndAcquisition acq of
        (Inl SpinnakerException, acq') \<Rightarrow> (Inl (ValueError SpinnakerError), acq')
      | r \<Rightarrow> r)"

definition start_acquisition :: "(unit, image_acquirer) prog" where
  "start_acquisition =
     thenE (set_node_val ''AcquisitionMode'' (PStr ''Continuous''))
       (\<lambda>acq. case on_device BeginAcquisition acq of
                 (Inl SpinnakerException, acq') \<Rightarrow> (Inl (ValueError SpinnakerError), acq')
               | r \<Rightarrow> r)"

text \<open>
  \<open>GetBySerial\<close> and \<open>GetByIndex\<close> on the device list: a handle, or the null handle
  (\<open>None\<close>) when no listed camera has the serial number. The index is the SDK's unsigned
  one.
\<close>

definition GetBySerial :: "string \<Rightarrow> image_acquirer \<Rightarrow> nat option" where
  "GetBySerial device_serial acq =
     find (\<lambda>h. h < length (cameras acq) \<and> serial_number (cameras acq ! h) = device_serial)
       (device_list acq)"

definition GetByIndex :: "nat \<Rightarrow> image_acquirer \<Rightarrow> nat option" where
  "GetByIndex device_index acq =
     (if device_index < length (device_list acq) then Some (device_list acq ! device_index)
      else None)"

text \<open>\<open>dev and dev.IsValid()\<close>\<close>

definition valid_handle :: "image_acquirer \<Rightarrow> nat option \<Rightarrow> bool" where
  "valid_handle acq dev =
     (case dev of None \<Rightarrow> False | Some h \<Rightarrow> h < length (cameras acq) \<and> cam_valid (cameras acq ! h))"

definition candidate_devices :: "string option \<Rightarrow> nat option \<Rightarrow> image_acquirer \<Rightarrow> nat option list" where
  "candidate_devices device_serial device_index acq =
     (case device_serial of None \<Rightarrow> [] | Some s \<Rightarrow> [GetBySerial s acq]) @
     (case device_index of
        None \<Rightarrow> []
      | Some i \<Rightarrow> if i < fst (get_device_count False acq) then [GetByIndex i acq] else [])"

definition init_device :: "string option \<Rightarrow> nat option \<Rightarrow> (bool, image_acquirer) prog" where
  "init_device device_serial device_index =
     thenE reset_cam
       (\<lambda>acq0.
          let acq1 = update_device_list acq0;
              chosen = (case find (valid_handle acq1) (candidate_devices device_serial device_index acq1) of
                          None \<Rightarrow> None
                        | Some dev \<Rightarrow> dev);
              acq2 = acq1\<lparr>current_device := chosen\<rparr>
          in case chosen of
               None \<Rightarrow> (Inl (ValueError (NoDeviceAvailable device_serial device_index)), acq2)
             | Some h \<Rightarrow>
                 thenE (on_device Init)
                   (\<lambda>acq3. case end_acquisition acq3 of
                              (Inl e, acq4) \<Rightarrow>
                                if is_value_error e then (Inr True, acq4) else (Inl e, acq4)
                            | (Inr u, acq4) \<Rightarrow> (Inr True, acq4)) acq2)"

subsection \<open>The frame pump\<close>

datatype level = Info | Warning | Error | Log

datatype message =
    Raised exc
  | ImageIncomplete nat
  | NodeValue string pyval
  | NodeExecuted string
  | PropertySet string pyval
  | Text string

type_synonym gst_log = "(level \<times> message) list"

text \<open>
  \<open>GetNextImage(timeout)\<close> hands out the next capture of the camera's script and raises
  (the timeout) once the script is used up; \<open>Release\<close> is recorded on the camera.
\<close>

definition GetNextImage :: "(image, camera) prog" where
  "GetNextImage c =
     (case pending c of
        [] \<Rightarrow> (Inl SpinnakerException, c\<lparr>next_image_calls := Suc (next_image_calls c)\<rparr>)
      | img # rest \<Rightarrow>
          (Inr img, c\<lparr>pending := rest, next_image_calls := Suc (next_image_calls c)\<rparr>))"

definition Release :: "image \<Rightarrow> camera \<Rightarrow> camera" where
  "Release img c = c\<lparr>released := released c @ [img]\<rparr>"

text \<open>
  The \<open>while\<close> loop of \<open>get_next_image\<close> on the current camera. The logger, when one is
  given, appends to the log it belongs to.
\<close>

function image_loop :: "bool \<Rightarrow> (image, camera \<times> gst_log) prog" where
  "image_loop logger (c, lg) =
     (case GetNextImage c of
        (Inl e, c') \<Rightarrow> (Inl e, (c', lg))
      | (Inr spinnaker_image, c') \<Rightarrow>
          if incomplete spinnaker_image then
            image_loop logger
              (Release spinnaker_image c',
               if logger then lg @ [(Warning, ImageIncomplete (image_status spinnaker_image))] else lg)
          else (Inr spinnaker_image, (c', lg)))"
  by pat_completeness auto
termination
  by (relation "measure (\<lambda>(logger, c, lg). length (pending c))")
     (auto simp: GetNextImage_def Release_def split: list.splits)

definition expand_dims :: "ndarray \<Rightarrow> ndarray" where
  "expand_dims a = a\<lparr>shape := shape a @ [1]\<rparr>"

definition get_next_image :: "bool \<Rightarrow> (ndarray \<times> int, image_acquirer \<times> gst_log) prog" where
  "get_next_image logger = (\<lambda>(acq, lg).
     case cam_of acq of
       None \<Rightarrow> (Inl AttributeError, (acq, lg))
     | Some c \<Rightarrow>
         (case image_loop logger (c, lg) of
            (Inl e, (c', lg')) \<Rightarrow> (Inl e, (upd_cam (\<lambda>_. c') acq, lg'))
          | (Inr spinnaker_image, (c', lg')) \<Rightarrow>
              let image_array = array spinnaker_image;
                  image_array = (if length (shape image_array) = 2 then expand_dims image_array
                                 else image_array);
                  image_timestamp = time_stamp spinnaker_image
              in (Inr (image_array, image_timestamp),
                  (upd_cam (\<lambda>_. Release spinnaker_image c') acq, lg'))))"

section \<open>PySpinSrc\<close>

record video_info =
  finfo_name :: string
  info_height :: int
  info_width :: int
  fps_n :: int
  fps_d :: int

record pixel_format_type =
  cap_type :: string
  gst :: string
  genicam :: string

definition RAW_CAP_TYPE :: string where
  "RAW_CAP_TYPE = ''video/x-raw''"

definition BAYER_CAP_TYPE :: string where
  "BAYER_CAP_TYPE = ''video/x-bayer''"

definition SUPPORTED_PIXEL_FORMATS :: "pixel_format_type list" where
  "SUPPORTED_PIXEL_FORMATS =
     [\<lparr>cap_type = RAW_CAP_TYPE, gst = ''GRAY8'', genicam = ''Mono8''\<rparr>,
      \<lparr>cap_type = RAW_CAP_TYPE, gst = ''UYVY'', genicam = ''YUV422Packed''\<rparr>,
      \<lparr>cap_type = RAW_CAP_TYPE, gst = ''YUY2'', genicam = ''YCbCr422_8''\<rparr>,
      \<lparr>cap_type = RAW_CAP_TYPE, gst = ''RGB'', genicam = ''RGB8''\<rparr>,
      \<lparr>cap_type = RAW_CAP_TYPE, gst = ''BGR'', genicam = ''BGR8''\<rparr>,
      \<lparr>cap_type = BAYER_CAP_TYPE, gst = ''rggb'', genicam = ''BayerRG8''\<rparr>,
      \<lparr>cap_type = BAYER_CAP_TYPE, gst = ''gbrg'', genicam = ''BayerGB8''\<rparr>,
      \<lparr>cap_type = BAYER_CAP_TYPE, gst = ''bggr'', genicam = ''BayerBG8''\<rparr>,
      \<lparr>cap_type = BAYER_CAP_TYPE, gst = ''grbg'', genicam = ''BayerGR8''\<rparr>]"

text \<open>One structure of the caps: the ranges as the pairs the probe read.\<close>

record caps_structure =
  structure_name :: string
  format :: string
  width_range :: "int \<times> int"
  height_range :: "int \<times> int"
  framerate_range :: "real \<times> real"

record gst_buffer =
  payload :: ndarray
  pts :: int
  duration :: int

datatype flow_return = OK | ERROR

record pyspinsrc =
  info :: video_info
  auto_exposure :: pyval
  auto_gain :: pyval
  exposure_time :: pyval
  gain :: pyval
  auto_wb :: pyval
  wb_blue :: pyval
  wb_red :: pyval
  h_binning :: pyval
  v_binning :: pyval
  offset_x :: pyval
  offset_y :: pyval
  num_cam_buffers :: pyval
  serial :: pyval
  user_set :: pyval
  camera_caps :: "caps_structure list option"
  image_acquirer :: "image_acquirer option"
  timestamp_offset :: int
  previous_timestamp :: int
  messages :: gst_log

text \<open>\<open>__init__\<close>: the defaults of the properties, no acquirer, a zero timestamp baseline.\<close>

definition pyspinsrc_init :: pyspinsrc where
  "pyspinsrc_init =
     \<lparr>info = \<lparr>finfo_name = [], info_height = 0, info_width = 0, fps_n = 0, fps_d = 1\<rparr>,
      auto_exposure = PBool True, auto_gain = PBool True, exposure_time = PInt (- 1),
      gain = PInt (- 1), auto_wb = PBool True, wb_blue = PInt (- 1), wb_red = PInt (- 1),
      h_binning = PInt 1, v_binning = PInt 1, offset_x = PInt 0, offset_y = PInt 0,
      num_cam_buffers = PInt 10, serial = PNone, user_set = PStr ''Default'',
      camera_caps = None, image_acquirer = None, timestamp_offset = 0,
      previous_timestamp = 0, messages = []\<rparr>"

definition gst_message :: "level \<Rightarrow> message \<Rightarrow> (unit, pyspinsrc) prog" where
  "gst_message lv msg el = (Inr (), el\<lparr>messages := messages el @ [(lv, msg)]\<rparr>)"

definition do_get_property :: "string \<Rightarrow> pyspinsrc \<Rightarrow> exc + pyval" where
  "do_get_property prop_name el =
     (if prop_name = ''auto-exposure'' then Inr (auto_exposure el)
      else if prop_name = ''auto-gain'' then Inr (auto_gain el)
      else if prop_name = ''exposure'' then Inr (exposure_time el)
      else if prop_name = ''gain'' then Inr (gain el)
      else if prop_name = ''auto-wb'' then Inr (auto_wb el)
      else if prop_name = ''wb-red-ratio'' then Inr (wb_red el)
      else if prop_name = ''h-binning'' then Inr (h_binning el)
      else if prop_name = ''v-binning'' then Inr (v_binning el)
      else if prop_name = ''offset-x'' then Inr (offset_x el)
      else if prop_name = ''offset-y'' then Inr (offset_y el)
      else if prop_name = ''num-image-buffers'' then Inr (num_cam_buffers el)
      else if prop_name = ''serial'' then Inr (serial el)
      else if prop_name = ''user-set'' then Inr (user_set el)
      else Inl AttributeError)"

definition do_set_property :: "string \<Rightarrow> pyval \<Rightarrow> (unit, pyspinsrc) prog" where
  "do_set_property prop_name val =
     thenE (gst_message Info (PropertySet prop_name val))
       (\<lambda>el.
          if prop_name = ''auto-exposure'' then (Inr (), el\<lparr>auto_exposure := val\<rparr>)
          else if prop_name = ''auto-gain'' then (Inr (), el\<lparr>auto_gain := val\<rparr>)
          else if prop_name = ''exposure'' then (Inr (), el\<lparr>exposure_time := val\<rparr>)
          else if prop_name = ''gain'' then (Inr (), el\<lparr>gain := val\<rparr>)
          else if prop_name = ''auto-wb'' then (Inr (), el\<lparr>auto_wb := val\<rparr>)
          else if prop_name = ''wb-blue-ratio'' then (Inr (), el\<lparr>wb_blue := val\<rparr>)
          else if prop_name = ''wb-red-ratio'' then (Inr (), el\<lparr>wb_red := val\<rparr>)
          else if prop_name = ''h-binning'' then (Inr (), el\<lparr>h_binning := val\<rparr>)
          else if prop_name = ''v-binning'' then (Inr (), el\<lparr>v_binning := val\<rparr>)
          else if prop_name = ''offset-x'' then (Inr (), el\<lparr>offset_x := val\<rparr>)
          else if prop_name = ''offset-y'' then (Inr (), el\<lparr>offset_y := val\<rparr>)
          else if prop_name = ''num-image-buffers'' then (Inr (), el\<lparr>num_cam_buffers := val\<rparr>)
          else if prop_name = ''serial'' then (Inr (), el\<lparr>serial := val\<rparr>)
          else if prop_name = ''user-set'' then (Inr (), el\<lparr>user_set := val\<rparr>)
          else (Inl AttributeError, el))"

text \<open>The names of \<open>__gproperties__\<close>.\<close>

definition gproperties :: "string list" where
  "gproperties =
     [''auto-exposure'', ''auto-gain'', ''exposure'', ''gain'', ''auto-wb'', ''wb-blue-ratio'',
      ''wb-red-ratio'', ''h-binning'', ''v-binning'', ''offset-x'', ''offset-y'',
      ''num-image-buffers'', ''serial'', ''user-set'']"

definition get_format_from_genicam :: "string \<Rightarrow> pixel_format_type option" where
  "get_format_from_genicam genicam_format =
     find (\<lambda>f. lower (genicam f) = lower genicam_format) SUPPORTED_PIXEL_FORMATS"

definition get_format_from_gst :: "string \<Rightarrow> pixel_format_type option" where
  "get_format_from_gst gst_format =
     find (\<lambda>f. lower (gst f) = lower gst_format) SUPPORTED_PIXEL_FORMATS"

subsection \<open>Helpers around the acquirer\<close>

text \<open>\<open>self.image_acquirer.method(...)\<close>; the attribute is \<open>None\<close> before \<open>do_start\<close>.\<close>

definition with_acquirer :: "('a, image_acquirer) prog \<Rightarrow> ('a, pyspinsrc) prog" where
  "with_acquirer m el =
     (case image_acquirer el of
        None \<Rightarrow> (Inl AttributeError, el)
      | Some acq \<Rightarrow> (case m acq of (r, acq') \<Rightarrow> (r, el\<lparr>image_acquirer := Some acq'\<rparr>)))"

text \<open>
  \<open>try: ... except (ValueError, NotImplementedError) as ex: Gst.warning(...); return dflt\<close>
\<close>

definition warn_and_return :: "'a \<Rightarrow> ('a, pyspinsrc) prog \<Rightarrow> ('a, pyspinsrc) prog" where
  "warn_and_return dflt m el =
     (case m el of
        (Inl e, el') \<Rightarrow>
          if is_value_or_not_implemented e
          then (Inr dflt, el'\<lparr>messages := messages el' @ [(Warning, Raised e)]\<rparr>)
          else (Inl e, el')
      | (Inr x, el') \<Rightarrow> (Inr x, el'))"

definition cam_node_available :: "string \<Rightarrow> (bool, pyspinsrc) prog" where
  "cam_node_available node_name = warn_and_return False (with_acquirer (node_available node_name))"

definition get_cam_node_val :: "string \<Rightarrow> (pyval, pyspinsrc) prog" where
  "get_cam_node_val node_name = warn_and_return PNone (with_acquirer (get_node_val node_name))"

definition set_cam_node_val :: "string \<Rightarrow> pyval \<Rightarrow> bool \<Rightarrow> (unit, pyspinsrc) prog" where
  "set_cam_node_val node_name val log_value =
     warn_and_return ()
       (thenE (with_acquirer (set_node_val node_name val))
          (if log_value
           then bindE (with_acquirer (get_node_val node_name))
                  (\<lambda>v. gst_message Info (NodeValue node_name v))
           else returnE ()))"

definition execute_cam_node :: "string \<Rightarrow> bool \<Rightarrow> (unit, pyspinsrc) prog" where
  "execute_cam_node node_name log_execution =
     warn_and_return ()
       (thenE (with_acquirer (execute_node node_name))
          (if log_execution then gst_message Info (NodeExecuted node_name) else returnE ()))"

definition get_cam_node_entries :: "string \<Rightarrow> (string list, pyspinsrc) prog" where
  "get_cam_node_entries node_name =
     warn_and_return [] (with_acquirer (get_node_entries node_name))"

definition get_cam_node_range :: "string \<Rightarrow> (pyval \<times> pyval, pyspinsrc) prog" where
  "get_cam_node_range node_name =
     warn_and_return (PNone, PNone) (with_acquirer (get_node_range node_name))"

subsection \<open>Applying properties and caps\<close>

fun seqE :: "(unit, 's) prog list \<Rightarrow> (unit, 's) prog" where
  "seqE [] = returnE ()"
| "seqE (m # ms) = thenE m (seqE ms)"

text \<open>\<open>if cond: body\<close>, where evaluating the condition may raise.\<close>

definition whenE :: "('s \<Rightarrow> exc + bool) \<Rightarrow> (unit, 's) prog \<Rightarrow> (unit, 's) prog" where
  "whenE cond body s =
     (case cond s of Inl e \<Rightarrow> (Inl e, s) | Inr b \<Rightarrow> if b then body s else (Inr (), s))"

definition apply_properties_to_cam :: "pyspinsrc \<Rightarrow> bool \<times> pyspinsrc" where
  "apply_properties_to_cam el0 =
     (case
        seqE
          [gst_message Info (Text ''Applying properties''),
           (\<lambda>el. set_cam_node_val ''UserSetSelector'' (user_set el) True el),
           execute_cam_node ''UserSetLoad'' True,
           set_cam_node_val ''StreamBufferHandlingMode'' (PStr ''OldestFirst'') True,
           set_cam_node_val ''StreamBufferCountMode'' (PStr ''Manual'') True,
           (\<lambda>el. set_cam_node_val ''StreamBufferCountManual'' (num_cam_buffers el) True el),
           whenE (\<lambda>el. py_greater (h_binning el) (PInt 1))
             (\<lambda>el. set_cam_node_val ''BinningHorizontal'' (h_binning el) True el),
           whenE (\<lambda>el. py_greater (v_binning el) (PInt 1))
             (\<lambda>el. set_cam_node_val ''BinningVertical'' (v_binning el) True el),
           whenE (\<lambda>el. py_ge_num (exposure_time el) 0)
             (thenE (set_cam_node_val ''ExposureAuto'' (PStr ''Off'') True)
                (\<lambda>el. set_cam_node_val ''ExposureTime'' (exposure_time el) True el)),
           whenE (\<lambda>el. Inr (py_bool (auto_exposure el)))
             (set_cam_node_val ''ExposureAuto'' (PStr ''Continuous'') True),
           whenE (\<lambda>el. py_ge_num (gain el) 0)
             (thenE (set_cam_node_val ''GainAuto'' (PStr ''Off'') True)
                (\<lambda>el. set_cam_node_val ''Gain'' (gain el) True el)),
           whenE (\<lambda>el. Inr (py_bool (auto_gain el)))
             (set_cam_node_val ''GainAuto'' (PStr ''Continuous'') True),
           bindE (cam_node_available ''BalanceWhiteAuto'') (\<lambda>available.
             if available then
               seqE
                 [whenE (\<lambda>el. py_ge_num (wb_blue el) 0)
                    (seqE
                       [set_cam_node_val ''BalanceWhiteAuto'' (PStr ''Off'') True,
                        set_cam_node_val ''BalanceRatioSelector'' (PStr ''Blue'') True,
                        (\<lambda>el. set_cam_node_val ''BalanceRatio'' (wb_blue el) True el)]),
                  whenE (\<lambda>el. py_ge_num (wb_red el) 0)
                    (seqE
                       [set_cam_node_val ''BalanceWhiteAuto'' (PStr ''Off'') True,
                        set_cam_node_val ''BalanceRatioSelector'' (PStr ''Red'') True,
                        (\<lambda>el. set_cam_node_val ''BalanceRatio'' (wb_red el) True el)]),
                  whenE (\<lambda>el. Inr (py_bool (auto_wb el)))
                    (set_cam_node_val ''BalanceWhiteAuto'' (PStr ''Continuous'') True)]
             else returnE ())] el0
      of
        (Inl ex, el') \<Rightarrow> (False, el'\<lparr>messages := messages el' @ [(Error, Raised ex)]\<rparr>)
      | (Inr u, el') \<Rightarrow> (True, el'))"

text \<open>
  \<open>apply_caps_to_cam\<close>. Its \<open>except\<close> clause holds \<open>ValueError\<close> and \<open>NotImplementedError\<close>
  only: an exception of another class leaves the method.
\<close>

definition apply_caps_to_cam :: "(bool, pyspinsrc) prog" where
  "apply_caps_to_cam el0 =
     (case
        seqE
          [gst_message Info (Text ''Applying caps.''),
           bindE (\<lambda>el. case get_format_from_gst (finfo_name (info el)) of
                          None \<Rightarrow> (Inl AttributeError, el)
                        | Some f \<Rightarrow> (Inr (genicam f), el))
             (\<lambda>genicam_format. set_cam_node_val ''PixelFormat'' (PStr genicam_format) True),
           (\<lambda>el. set_cam_node_val ''Height'' (PInt (info_height (info el))) True el),
           (\<lambda>el. set_cam_node_val ''Width'' (PInt (info_width (info el))) True el),
           (\<lambda>el. set_cam_node_val ''OffsetY'' (offset_y el) True el),
           (\<lambda>el. set_cam_node_val ''OffsetX'' (offset_x el) True el),
           bindE (cam_node_available ''AcquisitionFrameRateEnable'') (\<lambda>available.
             if available then set_cam_node_val ''AcquisitionFrameRateEnable'' (PBool True) True
             else thenE (set_cam_node_val ''AcquisitionFrameRateAuto'' (PStr ''Off'') True)
                        (set_cam_node_val ''AcquisitionFrameRateEnabled'' (PBool True) True)),
           (\<lambda>el. if fps_d (info el) = 0 then (Inl ZeroDivisionError, el)
                 else set_cam_node_val ''AcquisitionFrameRate''
                        (PFloat (of_int (fps_n (info el)) / of_int (fps_d (info el)))) True el)] el0
      of
        (Inl ex, el') \<Rightarrow>
          if is_value_or_not_implemented ex
          then (Inr False, el'\<lparr>messages := messages el' @ [(Error, Raised ex)]\<rparr>)
          else (Inl ex, el')
      | (Inr u, el') \<Rightarrow> (Inr True, el'))"

subsection \<open>Probing the capabilities\<close>

text \<open>
  \<open>range(lo, hi)\<close> takes integers and \<open>Gst.util_double_to_fraction\<close> a number: anything
  else, \<open>None\<close> included, raises TypeError. The Gst range objects themselves are kept as
  the pairs they were built from.
\<close>

fun py_index :: "pyval \<Rightarrow> exc + int" where
  "py_index (PInt i) = Inr i"
| "py_index (PBool b) = Inr (if b then 1 else 0)"
| "py_index _ = Inl TypeError"

definition make_structure ::
  "pixel_format_type \<Rightarrow> pyval \<times> pyval \<Rightarrow> pyval \<times> pyval \<Rightarrow> pyval \<times> pyval \<Rightarrow> exc + caps_structure" where
  "make_structure pixel_format w h fr =
     (case (py_index (fst w), py_index (snd w), py_index (fst h), py_index (snd h),
            py_float (fst fr), py_float (snd fr)) of
        (Inr width_min, Inr width_max, Inr height_min, Inr height_max, Inr fr_min, Inr fr_max) \<Rightarrow>
          Inr \<lparr>structure_name = cap_type pixel_format, format = gst pixel_format,
               width_range = (width_min, width_max), height_range = (height_min, height_max),
               framerate_range = (fr_min, fr_max)\<rparr>
      | _ \<Rightarrow> Inl TypeError)"

text \<open>The \<open>for\<close> loop of \<open>get_camera_caps\<close>; \<open>caps\<close> is its \<open>camera_caps\<close>.\<close>

fun probe_formats ::
  "pixel_format_type list \<Rightarrow> caps_structure list \<Rightarrow> (caps_structure list, pyspinsrc) prog" where
  "probe_formats [] caps = returnE caps"
| "probe_formats (pixel_format # rest) caps =
     thenE (set_cam_node_val ''PixelFormat'' (PStr (genicam pixel_format)) False)
       (bindE (get_cam_node_range ''Width'') (\<lambda>w.
        bindE (get_cam_node_range ''Height'') (\<lambda>h.
        bindE (get_cam_node_range ''AcquisitionFrameRate'') (\<lambda>fr.
        bindE (liftE (make_structure pixel_format w h fr)) (\<lambda>st.
          probe_formats rest (caps @ [st]))))))"

definition get_camera_caps :: "(caps_structure list, pyspinsrc) prog" where
  "get_camera_caps =
     bindE (get_cam_node_val ''PixelFormat'') (\<lambda>starting_pixel_format.
     bindE (get_cam_node_entries ''PixelFormat'') (\<lambda>genicam_formats.
     bindE (probe_formats (List.map_filter get_format_from_genicam genicam_formats) [])
       (\<lambda>caps.
     thenE (set_cam_node_val ''PixelFormat'' starting_pixel_format False)
       (returnE caps))))"

subsection \<open>Streaming\<close>

definition start_streaming :: "(bool, pyspinsrc) prog" where
  "start_streaming =
     bindE apply_caps_to_cam (\<lambda>applied.
       if applied then
         (\<lambda>el. case with_acquirer start_acquisition el of
                  (Inl ex, el') \<Rightarrow>
                    if is_value_error ex
                    then (Inr False, el'\<lparr>messages := messages el' @ [(Error, Raised ex)]\<rparr>)
                    else (Inl ex, el')
                | (Inr u, el') \<Rightarrow>
                    (Inr True, el'\<lparr>messages := messages el' @ [(Info, Text ''Acquisition Started'')]\<rparr>))
       else returnE False)"

text \<open>\<open>do_set_caps\<close>: \<open>self.info.from_caps(caps)\<close> stores the negotiated format.\<close>

definition do_set_caps :: "video_info \<Rightarrow> (bool, pyspinsrc) prog" where
  "do_set_caps caps =
     thenE (gst_message Info (Text ''Setting caps''))
       (\<lambda>el. start_streaming (el\<lparr>info := caps\<rparr>))"

text \<open>
  \<open>do_gst_push_src_fill\<close>. \<open>pts\<close> and \<open>duration\<close> are the Python integers the method
  computes.
\<close>

definition do_gst_push_src_fill :: "gst_buffer \<Rightarrow> pyspinsrc \<Rightarrow> (flow_return \<times> gst_buffer) \<times> pyspinsrc" where
  "do_gst_push_src_fill buffer el =
     (case image_acquirer el of
        None \<Rightarrow> ((ERROR, buffer), el\<lparr>messages := messages el @ [(Error, Raised AttributeError)]\<rparr>)
      | Some acq \<Rightarrow>
          (case get_next_image True (acq, messages el) of
             (Inl ex, (acq', lg)) \<Rightarrow>
               ((ERROR, buffer),
                el\<lparr>image_acquirer := Some acq', messages := lg @ [(Error, Raised ex)]\<rparr>)
           | (Inr (image_array, image_timestamp_ns), (acq', lg)) \<Rightarrow>
               let el1 = el\<lparr>image_acquirer := Some acq', messages := lg\<rparr>;
                   el2 = (if timestamp_offset el1 = 0
                          then el1\<lparr>timestamp_offset := image_timestamp_ns,
                                   previous_timestamp := image_timestamp_ns\<rparr>
                          else el1);
                   buffer' = buffer\<lparr>payload := image_array,
                                    pts := image_timestamp_ns - timestamp_offset el2,
                                    duration := image_timestamp_ns - previous_timestamp el2\<rparr>;
                   el3 = el2\<lparr>previous_timestamp := image_timestamp_ns\<rparr>
               in ((OK, buffer'), el3)))"

text \<open>
  The host calls \<open>do_gst_push_src_fill\<close> once per buffer. \<open>fill_buffers\<close> runs it on each
  buffer of a list in turn and gives the results together with the element after each
  call.
\<close>

fun fill_buffers ::
  "gst_buffer list \<Rightarrow> pyspinsrc \<Rightarrow> ((flow_return \<times> gst_buffer) \<times> pyspinsrc) list" where
  "fill_buffers [] el = []"
| "fill_buffers (b # bs) el =
     (let r = do_gst_push_src_fill b el in r # fill_buffers bs (snd r))"

subsection \<open>Starting and stopping the element\<close>

text \<open>
  \<open>do_start\<close>. \<open>ImageAcquirer()\<close> takes the cameras the SDK lists at that moment, which
  are an argument here. The serial number is a string property: \<open>None\<close> or a string.
\<close>

definition do_start :: "camera list \<Rightarrow> pyspinsrc \<Rightarrow> bool \<times> pyspinsrc" where
  "do_start cams el0 =
     (case
        thenE (gst_message Info (Text ''Starting''))
          (thenE (\<lambda>el. (Inr (), el\<lparr>image_acquirer := Some (acquirer_init cams)\<rparr>))
             (bindE
                (\<lambda>el. case serial el of
                         PNone \<Rightarrow> with_acquirer (init_device None (Some 0)) el
                       | PStr s \<Rightarrow> with_acquirer (init_device (Some s) None) el
                       | _ \<Rightarrow> (Inl TypeError, el))
                (\<lambda>opened.
                   if opened then
                     (\<lambda>el. case apply_properties_to_cam el of
                              (applied, el') \<Rightarrow>
                                if applied then
                                  bindE get_camera_caps
                                    (\<lambda>caps el''. (Inr True, el''\<lparr>camera_caps := Some caps\<rparr>)) el'
                                else (Inr False, el'))
                   else returnE False))) el0
      of
        (Inl ex, el') \<Rightarrow> (False, el'\<lparr>messages := messages el' @ [(Error, Raised ex)]\<rparr>)
      | (Inr started, el') \<Rightarrow> (started, el'))"

text \<open>
  \<open>do_stop\<close>: \<open>del self.image_acquirer\<close> drops the acquirer, whose \<open>__del__\<close> then runs;
  an exception raised there does not reach \<open>do_stop\<close>. The result carries the cameras as
  the SDK holds them afterwards.
\<close>

definition do_stop :: "pyspinsrc \<Rightarrow> (bool \<times> camera list) \<times> pyspinsrc" where
  "do_stop el =
     ((True, case image_acquirer el of
               None \<Rightarrow> []
             | Some acq \<Rightarrow> cameras (snd (acquirer_del acq))),
      el\<lparr>image_acquirer := None, messages := messages el @ [(Info, Text ''Stopping'')]\<rparr>)"

section \<open>Sample devices\<close>

text \<open>
  Concrete cameras and elements on which the theorems below are instantiated and the
  code is run.
\<close>

definition rw_node :: "iface \<Rightarrow> node" where
  "rw_node i = \<lparr>access = RW, has_interface_type = True, content = i\<rparr>"

definition entry :: "string \<Rightarrow> enum_entry" where
  "entry s = \<lparr>symbolic = s, entry_access = RW\<rparr>"

definition sample_dev_nodes :: node_map where
  "sample_dev_nodes =
     [(''PixelFormat'', rw_node (IEnumeration [entry ''RGB8'', entry ''Mono8''] ''Mono8'')),
      (''Width'', rw_node (IInteger 16 1440 1440)),
      (''Height'', rw_node (IInteger 16 1080 1080)),
      (''OffsetX'', rw_node (IInteger 0 0 0)),
      (''OffsetY'', rw_node (IInteger 0 0 0)),
      (''AcquisitionFrameRateEnable'', rw_node (IBoolean False)),
      (''AcquisitionFrameRate'', rw_node (IFloat 1 60 30)),
      (''AcquisitionMode'',
         rw_node (IEnumeration [entry ''Continuous'', entry ''SingleFrame''] ''SingleFrame'')),
      (''Gain'', rw_node (IFloat 0 48 0)),
      (''DeviceLinkSpeed'', rw_node (IInteger 0 1000 1000))]"

definition sample_camera :: camera where
  "sample_camera =
     \<lparr>serial_number = ''18285036'', cam_valid = True, cam_initialized = True,
      cam_streaming = False, dev_nodes = sample_dev_nodes,
      tl_device_nodes = [(''DeviceLinkSpeed'', rw_node (IInteger 0 5000 5000))],
      tl_stream_nodes = [(''StreamBufferCountManual'', rw_node (IInteger 1 100 10))],
      executed = [], pending = [], next_image_calls = 0, released = [], faults = []\<rparr>"

definition sample_acquirer :: image_acquirer where
  "sample_acquirer = (acquirer_init [sample_camera])\<lparr>current_device := Some 0\<rparr>"

definition frame :: "bool \<Rightarrow> int \<Rightarrow> image" where
  "frame inc t =
     \<lparr>incomplete = inc, image_status = (if inc then 9 else 0),
      array = \<lparr>shape = [2, 2], pixels = [0, 0, 0, 0]\<rparr>, time_stamp = t\<rparr>"

definition empty_buffer :: gst_buffer where
  "empty_buffer = \<lparr>payload = \<lparr>shape = [], pixels = []\<rparr>, pts = 0, duration = 0\<rparr>"

text \<open>An element whose acquirer holds the given camera as its current device.\<close>

definition element_on :: "camera \<Rightarrow> pyspinsrc" where
  "element_on c =
     pyspinsrc_init\<lparr>image_acquirer := Some ((acquirer_init [c])\<lparr>current_device := Some 0\<rparr>)\<rparr>"

text \<open>The sample camera while its \<open>Width\<close> node is not available.\<close>

definition camera_without_width :: camera where
  "camera_without_width =
     sample_camera\<lparr>dev_nodes :=
       AList.update ''Width'' \<lparr>access = NA, has_interface_type = True,
                               content = IInteger 16 1440 1440\<rparr> sample_dev_nodes\<rparr>"

text \<open>The sample camera while its \<open>PixelFormat\<close> node is read-only.\<close>

definition camera_locked_format :: camera where
  "camera_locked_format =
     sample_camera\<lparr>dev_nodes :=
       AList.update ''PixelFormat''
         \<lparr>access = RO, has_interface_type = True,
          content = IEnumeration [entry ''RGB8'', entry ''Mono8''] ''Mono8''\<rparr> sample_dev_nodes\<rparr>"

definition rgb_caps :: video_info where
  "rgb_caps = \<lparr>finfo_name = ''RGB'', info_height = 1080, info_width = 1440, fps_n = 30, fps_d = 1\<rparr>"

text \<open>The sample camera, streaming, with \<open>EndAcquisition\<close> scripted to fail.\<close>

definition camera_stuck :: camera where
  "camera_stuck = sample_camera\<lparr>cam_streaming := True, faults := [CallEndAcquisition]\<rparr>"

text \<open>
  An element after a first session: two captures stamped 100 and 250 were delivered,
  then the element was stopped.
\<close>

definition stopped_element :: pyspinsrc where
  "stopped_element =
     snd (do_stop
       (snd (last (fill_buffers [empty_buffer, empty_buffer]
          (element_on (sample_camera\<lparr>pending := [frame False 100, frame False 250]\<rparr>))))))"



text \<open>The sample camera with \<open>BeginAcquisition\<close> scripted to fail.\<close>

definition camera_begin_fails :: camera where
  "camera_begin_fails = sample_camera\<lparr>faults := [CallBeginAcquisition]\<rparr>"

section \<open>Verified properties\<close>

subsection \<open>Auxiliary facts about the current camera\<close>

lemma cam_of_upd_cam:
  "cam_of acq = Some c \<Longrightarrow> cam_of (upd_cam f acq) = Some (f c)"
  by (auto simp: cam_of_def upd_cam_def split: option.splits if_splits)

lemma cam_of_cache [simp]:
  "cam_of (acq\<lparr>device_node_map := x\<rparr>) = cam_of acq"
  "cam_of (acq\<lparr>tl_device_node_map := y\<rparr>) = cam_of acq"
  "cam_of (acq\<lparr>tl_stream_node_map := z\<rparr>) = cam_of acq"
  by (simp_all add: cam_of_def split: option.splits)

lemma GetNode_put_node:
  "cam_of acq = Some c \<Longrightarrow> GetNode sc name (upd_cam (put_node sc name n) acq) = Some n"
  by (cases sc) (simp_all add: GetNode_def cam_of_upd_cam update_conv')

subsection \<open>Clamping writes\<close>

lemma py_clamp_int:
  "py_max (PInt v) (PInt lo) = Inr (PInt (max v lo))"
  "py_min (PInt w) (PInt hi) = Inr (PInt (min w hi))"
  by (auto simp: py_max_def py_min_def py_greater_def py_less_def max_def min_def)

lemma py_clamp_float:
  "py_max (PFloat v) (PFloat lo) = Inr (PFloat (max v lo))"
  "py_min (PFloat w) (PFloat hi) = Inr (PFloat (min w hi))"
  by (auto simp: py_max_def py_min_def py_greater_def py_less_def max_def min_def)

lemma set_int_node_val_stores:
  assumes "IsAvailable n" and "IsWritable n" and "content n = IInteger lo hi cur"
  shows "set_int_node_val sc name n (PInt v) acq =
           (Inr (), upd_cam (put_node sc name (n\<lparr>content := IInteger lo hi (min (max v lo) hi)\<rparr>)) acq)"
  using assms by (simp add: set_int_node_val_def bindE_def liftE_def py_clamp_int)

lemma set_float_node_val_stores:
  assumes "IsAvailable n" and "IsWritable n" and "content n = IFloat lo hi cur"
  shows "set_float_node_val sc name n (PFloat v) acq =
           (Inr (), upd_cam (put_node sc name (n\<lparr>content := IFloat lo hi (min (max v lo) hi)\<rparr>)) acq)"
  using assms by (simp add: set_float_node_val_def bindE_def liftE_def py_clamp_float)

lemma clamp_order: "lo \<le> hi \<Longrightarrow> min (max v lo) hi = max lo (min hi (v::'a::linorder))"
  by (auto simp: max_def min_def)

text \<open>
  C2. On an Integer node and on a Float node that are available and writable, with
  bounds \<open>lo \<le> hi\<close>, the setter raises nothing and the node then holds
  \<open>max lo (min hi v)\<close> for the requested \<open>v\<close>: a request outside the bounds is clamped,
  not rejected. (\<open>n\<close> is the Integer node, \<open>m\<close> the Float node.)
\<close>

theorem set_node_val_clamps:
  assumes "cam_of acq = Some c"
    and "IsAvailable n" and "IsWritable n" and "content n = IInteger lo hi cur" and "lo \<le> hi"
    and "IsAvailable m" and "IsWritable m" and "content m = IFloat flo fhi fcur" and "flo \<le> fhi"
  shows "fst (set_int_node_val sc name n (PInt v) acq) = Inr () \<and>
         GetNode sc name (snd (set_int_node_val sc name n (PInt v) acq))
           = Some (n\<lparr>content := IInteger lo hi (max lo (min hi v))\<rparr>) \<and>
         fst (set_float_node_val sc name m (PFloat x) acq) = Inr () \<and>
         GetNode sc name (snd (set_float_node_val sc name m (PFloat x) acq))
           = Some (m\<lparr>content := IFloat flo fhi (max flo (min fhi x))\<rparr>)"
proof -
  have i: "set_int_node_val sc name n (PInt v) acq =
      (Inr (), upd_cam (put_node sc name (n\<lparr>content := IInteger lo hi (max lo (min hi v))\<rparr>)) acq)"
    using set_int_node_val_stores [OF assms(2-4)] clamp_order [OF assms(5)] by simp
  have f: "set_float_node_val sc name m (PFloat x) acq =
      (Inr (), upd_cam (put_node sc name (m\<lparr>content := IFloat flo fhi (max flo (min fhi x))\<rparr>)) acq)"
    using set_float_node_val_stores [OF assms(6-8)] clamp_order [OF assms(9)] by simp
  show ?thesis
    unfolding i f fst_conv snd_conv using GetNode_put_node [OF assms(1)] by simp
qed

lemma sample_cam: "cam_of sample_acquirer = Some sample_camera"
  by (simp add: sample_acquirer_def acquirer_init_def cam_of_def)

theorem set_node_val_clamps_witness:
  "fst (set_int_node_val Device ''Width'' (rw_node (IInteger 16 1440 1440)) (PInt 5) sample_acquirer)
     = Inr () \<and>
   GetNode Device ''Width''
     (snd (set_int_node_val Device ''Width'' (rw_node (IInteger 16 1440 1440)) (PInt 5) sample_acquirer))
     = Some (rw_node (IInteger 16 1440 16)) \<and>
   fst (set_float_node_val Device ''Width'' (rw_node (IFloat 0 48 10)) (PFloat 100) sample_acquirer)
     = Inr () \<and>
   GetNode Device ''Width''
     (snd (set_float_node_val Device ''Width'' (rw_node (IFloat 0 48 10)) (PFloat 100) sample_acquirer))
     = Some (rw_node (IFloat 0 48 48))"
  using set_node_val_clamps [OF sample_cam, of "rw_node (IInteger 16 1440 1440)" 16 1440 1440
      "rw_node (IFloat 0 48 10)" 0 48 10 Device "''Width''" 5 100]
  by (simp add: rw_node_def IsAvailable_def IsWritable_def)

subsection \<open>Node lookup\<close>

lemma get_node_cases:
  assumes "cam_of acq = Some c" and "cam_valid c" and "cam_initialized c"
  shows "fst (get_node name acq) =
           Inr (case map_of (dev_nodes c) name of
                  Some n \<Rightarrow> Some (Device, n)
                | None \<Rightarrow>
                   (case map_of (tl_device_nodes c) name of
                      Some n \<Rightarrow> Some (TLDevice, n)
                    | None \<Rightarrow>
                       (case map_of (tl_stream_nodes c) name of
                          Some n \<Rightarrow> Some (TLStream, n)
                        | None \<Rightarrow> None)))"
  using assms
  by (simp add: get_node_def bindE_def get_device_node_map_def get_tl_device_node_map_def
      get_tl_stream_node_map_def device_selected_def GetNode_def split: option.splits)

lemma cam_of_write_node:
  assumes "cam_of acq = Some c"
  shows "\<exists>c'. cam_of (snd (write_node name (Some (Device, n)) v acq)) = Some c' \<and>
              tl_device_nodes c' = tl_device_nodes c \<and> tl_stream_nodes c' = tl_stream_nodes c"
  using assms
  by (auto simp: write_node_def set_int_node_val_def set_float_node_val_def set_bool_node_val_def
      set_enum_node_val_def bindE_def liftE_def raiseE_def cam_of_upd_cam
      split: iface.splits sum.splits option.splits)

lemma get_node_device:
  assumes "cam_of acq = Some c" and "cam_valid c" and "cam_initialized c"
    and "map_of (dev_nodes c) name = Some n"
  shows "get_node name acq = (Inr (Some (Device, n)), acq\<lparr>device_node_map := Some Device\<rparr>)"
  using assms
  by (simp add: get_node_def bindE_def get_device_node_map_def GetNode_def)

lemma GetNode_cache [simp]:
  "GetNode sc name (acq\<lparr>device_node_map := x\<rparr>) = GetNode sc name acq"
  by (simp add: GetNode_def)

lemma set_node_val_keeps_tl:
  assumes "cam_of acq = Some c" and "cam_valid c" and "cam_initialized c"
    and "map_of (dev_nodes c) name = Some n"
  shows "GetNode TLDevice name (snd (set_node_val name v acq)) = GetNode TLDevice name acq"
    and "GetNode TLStream name (snd (set_node_val name v acq)) = GetNode TLStream name acq"
proof -
  let ?acq = "acq\<lparr>device_node_map := Some Device\<rparr>"
  have s: "set_node_val name v acq = write_node name (Some (Device, n)) v ?acq"
    by (simp add: set_node_val_def bindE_def get_node_device [OF assms])
  have "cam_of ?acq = Some c" using assms(1) by simp
  from cam_of_write_node [OF this, of name n v]
  obtain c' where c': "cam_of (snd (set_node_val name v acq)) = Some c'"
    "tl_device_nodes c' = tl_device_nodes c" "tl_stream_nodes c' = tl_stream_nodes c"
    unfolding s by blast
  show "GetNode TLDevice name (snd (set_node_val name v acq)) = GetNode TLDevice name acq"
    using c' assms(1) by (simp add: GetNode_def)
  show "GetNode TLStream name (snd (set_node_val name v acq)) = GetNode TLStream name acq"
    using c' assms(1) by (simp add: GetNode_def)
qed

text \<open>What \<open>set_node_val\<close> leaves in the device scope, for each kind of node it writes.\<close>

lemma set_node_val_writes_device:
  assumes "cam_of acq = Some c" and "cam_valid c" and "cam_initialized c"
    and "map_of (dev_nodes c) name = Some n"
    and "has_interface_type n" and "IsAvailable n" and "IsWritable n"
  shows "content n = IInteger lo hi cur \<Longrightarrow>
           fst (set_node_val name (PInt i) acq) = Inr () \<and>
           GetNode Device name (snd (set_node_val name (PInt i) acq))
             = Some (n\<lparr>content := IInteger lo hi (min (max i lo) hi)\<rparr>)"
    and "content n = IFloat flo fhi fcur \<Longrightarrow>
           fst (set_node_val name (PFloat x) acq) = Inr () \<and>
           GetNode Device name (snd (set_node_val name (PFloat x) acq))
             = Some (n\<lparr>content := IFloat flo fhi (min (max x flo) fhi)\<rparr>)"
    and "content n = IBoolean bcur \<Longrightarrow>
           fst (set_node_val name v acq) = Inr () \<and>
           GetNode Device name (snd (set_node_val name v acq))
             = Some (n\<lparr>content := IBoolean (py_bool v)\<rparr>)"
    and "content n = IEnumeration entries ecur \<Longrightarrow>
         find (\<lambda>e. symbolic e = py_str v) entries = Some e \<Longrightarrow> entry_usable e \<Longrightarrow>
           fst (set_node_val name v acq) = Inr () \<and>
           GetNode Device name (snd (set_node_val name v acq))
             = Some (n\<lparr>content := IEnumeration entries (symbolic e)\<rparr>)"
proof -
  let ?acq = "acq\<lparr>device_node_map := Some Device\<rparr>"
  have s: "set_node_val name w acq = write_node name (Some (Device, n)) w ?acq" for w
    by (simp add: set_node_val_def bindE_def get_node_device [OF assms(1-4)])
  have c: "cam_of ?acq = Some c" using assms(1) by simp
  note put = GetNode_put_node [OF c, of Device name]
  show "content n = IInteger lo hi cur \<Longrightarrow>
           fst (set_node_val name (PInt i) acq) = Inr () \<and>
           GetNode Device name (snd (set_node_val name (PInt i) acq))
             = Some (n\<lparr>content := IInteger lo hi (min (max i lo) hi)\<rparr>)"
    using assms(5) set_int_node_val_stores [OF assms(6,7), of lo hi cur Device name i ?acq] put
    by (simp add: s write_node_def)
  show "content n = IFloat flo fhi fcur \<Longrightarrow>
           fst (set_node_val name (PFloat x) acq) = Inr () \<and>
           GetNode Device name (snd (set_node_val name (PFloat x) acq))
             = Some (n\<lparr>content := IFloat flo fhi (min (max x flo) fhi)\<rparr>)"
    using assms(5) set_float_node_val_stores [OF assms(6,7), of flo fhi fcur Device name x ?acq] put
    by (simp add: s write_node_def)
  show "content n = IBoolean bcur \<Longrightarrow>
           fst (set_node_val name v acq) = Inr () \<and>
           GetNode Device name (snd (set_node_val name v acq))
             = Some (n\<lparr>content := IBoolean (py_bool v)\<rparr>)"
    using assms(5-7) put
    by (simp add: s write_node_def set_bool_node_val_def)
  show "content n = IEnumeration entries ecur \<Longrightarrow>
         find (\<lambda>e. symbolic e = py_str v) entries = Some e \<Longrightarrow> entry_usable e \<Longrightarrow>
           fst (set_node_val name v acq) = Inr () \<and>
           GetNode Device name (snd (set_node_val name v acq))
             = Some (n\<lparr>content := IEnumeration entries (symbolic e)\<rparr>)"
    using assms(5-7) put
    by (simp add: s write_node_def set_enum_node_val_def)
qed

text \<open>
  C6. With a valid, initialized device selected, a name is looked up in the device
  scope, then the transport-layer device scope, then the transport-layer stream scope,
  and the first scope holding it wins. For a name in the device scope, whatever the
  other two scopes hold, \<open>get_node_val\<close> reads the device-scope node, and
  \<open>set_node_val\<close> writes the device-scope node: after it the device scope holds, under
  that name, the node with the clamped integer or float, the boolean, or the selected
  entry, and the nodes of that name in the two transport-layer scopes are as they
  were. For a name in none of the scopes, \<open>get_node_val\<close>, \<open>set_node_val\<close>,
  \<open>execute_node\<close>, \<open>get_node_range\<close> and \<open>get_node_entries\<close> raise the "node is not
  available" ValueError.
\<close>

theorem node_lookup_precedence:
  assumes "cam_of acq = Some c" and "cam_valid c" and "cam_initialized c"
  shows "(\<forall>n. map_of (dev_nodes c) name = Some n \<longrightarrow>
            get_node name acq = (Inr (Some (Device, n)), acq\<lparr>device_node_map := Some Device\<rparr>) \<and>
            fst (get_node_val name acq) = read_node name (Some (Device, n)) \<and>
            set_node_val name v acq =
              write_node name (Some (Device, n)) v (acq\<lparr>device_node_map := Some Device\<rparr>) \<and>
            (\<exists>c'. cam_of (snd (set_node_val name v acq)) = Some c' \<and>
                  tl_device_nodes c' = tl_device_nodes c \<and>
                  tl_stream_nodes c' = tl_stream_nodes c) \<and>
            GetNode TLDevice name (snd (set_node_val name v acq)) = GetNode TLDevice name acq \<and>
            GetNode TLStream name (snd (set_node_val name v acq)) = GetNode TLStream name acq \<and>
            (has_interface_type n \<and> IsAvailable n \<and> IsWritable n \<longrightarrow>
               (\<forall>lo hi cur i. content n = IInteger lo hi cur \<longrightarrow>
                  fst (set_node_val name (PInt i) acq) = Inr () \<and>
                  GetNode Device name (snd (set_node_val name (PInt i) acq))
                    = Some (n\<lparr>content := IInteger lo hi (min (max i lo) hi)\<rparr>)) \<and>
               (\<forall>lo hi cur x. content n = IFloat lo hi cur \<longrightarrow>
                  fst (set_node_val name (PFloat x) acq) = Inr () \<and>
                  GetNode Device name (snd (set_node_val name (PFloat x) acq))
                    = Some (n\<lparr>content := IFloat lo hi (min (max x lo) hi)\<rparr>)) \<and>
               (\<forall>cur. content n = IBoolean cur \<longrightarrow>
                  fst (set_node_val name v acq) = Inr () \<and>
                  GetNode Device name (snd (set_node_val name v acq))
                    = Some (n\<lparr>content := IBoolean (py_bool v)\<rparr>)) \<and>
               (\<forall>entries cur e. content n = IEnumeration entries cur \<and>
                    find (\<lambda>e. symbolic e = py_str v) entries = Some e \<and> entry_usable e \<longrightarrow>
                  fst (set_node_val name v acq) = Inr () \<and>
                  GetNode Device name (snd (set_node_val name v acq))
                    = Some (n\<lparr>content := IEnumeration entries (symbolic e)\<rparr>)))) \<and>
         (\<forall>n. map_of (dev_nodes c) name = None \<and> map_of (tl_device_nodes c) name = Some n \<longrightarrow>
            fst (get_node name acq) = Inr (Some (TLDevice, n))) \<and>
         (\<forall>n. map_of (dev_nodes c) name = None \<and> map_of (tl_device_nodes c) name = None \<and>
              map_of (tl_stream_nodes c) name = Some n \<longrightarrow>
            fst (get_node name acq) = Inr (Some (TLStream, n))) \<and>
         (map_of (dev_nodes c) name = None \<and> map_of (tl_device_nodes c) name = None \<and>
          map_of (tl_stream_nodes c) name = None \<longrightarrow>
            fst (get_node_val name acq) = Inl (ValueError (NodeNotAvailable name)) \<and>
            fst (set_node_val name v acq) = Inl (ValueError (NodeNotAvailable name)) \<and>
            fst (execute_node name acq) = Inl (ValueError (NodeNotAvailable name)) \<and>
            fst (get_node_range name acq) = Inl (ValueError (NodeNotAvailable name)) \<and>
            fst (get_node_entries name acq) = Inl (ValueError (NodeNotAvailable name)))"
proof (intro conjI allI impI)
  fix n assume n: "map_of (dev_nodes c) name = Some n"
  show g: "get_node name acq = (Inr (Some (Device, n)), acq\<lparr>device_node_map := Some Device\<rparr>)"
    using assms n by (rule get_node_device)
  show "fst (get_node_val name acq) = read_node name (Some (Device, n))"
    by (simp add: get_node_val_def bindE_def g liftE_def)
  show s: "set_node_val name v acq =
      write_node name (Some (Device, n)) v (acq\<lparr>device_node_map := Some Device\<rparr>)"
    by (simp add: set_node_val_def bindE_def g)
  have "cam_of (acq\<lparr>device_node_map := Some Device\<rparr>) = Some c"
    using assms(1) by simp
  from cam_of_write_node [OF this]
  show "\<exists>c'. cam_of (snd (set_node_val name v acq)) = Some c' \<and>
          tl_device_nodes c' = tl_device_nodes c \<and> tl_stream_nodes c' = tl_stream_nodes c"
    unfolding s .
  show "GetNode TLDevice name (snd (set_node_val name v acq)) = GetNode TLDevice name acq"
    using assms n by (rule set_node_val_keeps_tl)
  show "GetNode TLStream name (snd (set_node_val name v acq)) = GetNode TLStream name acq"
    using assms n by (rule set_node_val_keeps_tl)
  {
    assume w: "has_interface_type n \<and> IsAvailable n \<and> IsWritable n"
    note wr = set_node_val_writes_device [OF assms n w [THEN conjunct1]
        w [THEN conjunct2, THEN conjunct1] w [THEN conjunct2, THEN conjunct2]]
    {
      fix lo hi cur i assume k: "content n = IInteger lo hi cur"
      from wr(1) [OF k, of i]
      show "fst (set_node_val name (PInt i) acq) = Inr ()"
        and "GetNode Device name (snd (set_node_val name (PInt i) acq))
              = Some (n\<lparr>content := IInteger lo hi (min (max i lo) hi)\<rparr>)"
        by simp_all
    }
    {
      fix lo hi cur x assume k: "content n = IFloat lo hi cur"
      from wr(2) [OF k, of x]
      show "fst (set_node_val name (PFloat x) acq) = Inr ()"
        and "GetNode Device name (snd (set_node_val name (PFloat x) acq))
              = Some (n\<lparr>content := IFloat lo hi (min (max x lo) hi)\<rparr>)"
        by simp_all
    }
    {
      fix cur assume k: "content n = IBoolean cur"
      from wr(3) [OF k, of v]
      show "fst (set_node_val name v acq) = Inr ()"
        and "GetNode Device name (snd (set_node_val name v acq))
              = Some (n\<lparr>content := IBoolean (py_bool v)\<rparr>)"
        by simp_all
    }
    {
      fix entries cur e
      assume k: "content n = IEnumeration entries cur \<and>
                 find (\<lambda>e. symbolic e = py_str v) entries = Some e \<and> entry_usable e"
      from wr(4) [OF k [THEN conjunct1] k [THEN conjunct2, THEN conjunct1]
          k [THEN conjunct2, THEN conjunct2]]
      show "fst (set_node_val name v acq) = Inr ()"
        and "GetNode Device name (snd (set_node_val name v acq))
              = Some (n\<lparr>content := IEnumeration entries (symbolic e)\<rparr>)"
        by simp_all
    }
  }
next
  fix n assume "map_of (dev_nodes c) name = None \<and> map_of (tl_device_nodes c) name = Some n"
  then show "fst (get_node name acq) = Inr (Some (TLDevice, n))"
    using assms by (simp add: get_node_cases)
next
  fix n assume "map_of (dev_nodes c) name = None \<and> map_of (tl_device_nodes c) name = None \<and>
              map_of (tl_stream_nodes c) name = Some n"
  then show "fst (get_node name acq) = Inr (Some (TLStream, n))"
    using assms by (simp add: get_node_cases)
next
  assume a: "map_of (dev_nodes c) name = None \<and> map_of (tl_device_nodes c) name = None \<and>
          map_of (tl_stream_nodes c) name = None"
  then have "fst (get_node name acq) = Inr None"
    using assms by (simp add: get_node_cases)
  then obtain a' where g: "get_node name acq = (Inr None, a')"
    by (cases "get_node name acq") simp
  show "fst (get_node_val name acq) = Inl (ValueError (NodeNotAvailable name))"
    by (simp add: get_node_val_def bindE_def g liftE_def read_node_def)
  show "fst (set_node_val name v acq) = Inl (ValueError (NodeNotAvailable name))"
    by (simp add: set_node_val_def bindE_def g write_node_def raiseE_def)
  show "fst (execute_node name acq) = Inl (ValueError (NodeNotAvailable name))"
    by (simp add: execute_node_def bindE_def g raiseE_def)
  show "fst (get_node_range name acq) = Inl (ValueError (NodeNotAvailable name))"
    by (simp add: get_node_range_def bindE_def g raiseE_def)
  show "fst (get_node_entries name acq) = Inl (ValueError (NodeNotAvailable name))"
    by (simp add: get_node_entries_def bindE_def g raiseE_def)
qed

lemma sample_camera_ready: "cam_valid sample_camera" "cam_initialized sample_camera"
  by (simp_all add: sample_camera_def)

theorem node_lookup_precedence_witness:
  "map_of (dev_nodes sample_camera) ''DeviceLinkSpeed'' = Some (rw_node (IInteger 0 1000 1000)) \<and>
   map_of (tl_device_nodes sample_camera) ''DeviceLinkSpeed'' = Some (rw_node (IInteger 0 5000 5000)) \<and>
   fst (get_node_val ''DeviceLinkSpeed'' sample_acquirer) = Inr (PInt 1000) \<and>
   fst (set_node_val ''DeviceLinkSpeed'' (PInt 500) sample_acquirer) = Inr () \<and>
   GetNode Device ''DeviceLinkSpeed'' (snd (set_node_val ''DeviceLinkSpeed'' (PInt 500) sample_acquirer))
     = Some (rw_node (IInteger 0 1000 500)) \<and>
   GetNode TLDevice ''DeviceLinkSpeed'' (snd (set_node_val ''DeviceLinkSpeed'' (PInt 500) sample_acquirer))
     = Some (rw_node (IInteger 0 5000 5000)) \<and>
   fst (get_node_val ''Temperature'' sample_acquirer) = Inl (ValueError (NodeNotAvailable ''Temperature''))"
proof -
  have d: "map_of (dev_nodes sample_camera) ''DeviceLinkSpeed'' = Some (rw_node (IInteger 0 1000 1000))"
    by (simp add: sample_camera_def sample_dev_nodes_def)
  have t: "map_of (tl_device_nodes sample_camera) ''DeviceLinkSpeed'' = Some (rw_node (IInteger 0 5000 5000))"
    by (simp add: sample_camera_def)
  have a: "map_of (dev_nodes sample_camera) ''Temperature'' = None \<and>
           map_of (tl_device_nodes sample_camera) ''Temperature'' = None \<and>
           map_of (tl_stream_nodes sample_camera) ''Temperature'' = None"
    by (simp add: sample_camera_def sample_dev_nodes_def)
  have r: "read_node ''DeviceLinkSpeed'' (Some (Device, rw_node (IInteger 0 1000 1000))) = Inr (PInt 1000)"
    by (simp add: read_node_def rw_node_def get_int_node_val_def IsAvailable_def IsReadable_def)
  have w: "has_interface_type (rw_node (IInteger 0 1000 1000)) \<and>
           IsAvailable (rw_node (IInteger 0 1000 1000)) \<and> IsWritable (rw_node (IInteger 0 1000 1000))"
    "content (rw_node (IInteger 0 1000 1000)) = IInteger 0 1000 1000"
    "rw_node (IInteger 0 1000 1000)\<lparr>content := IInteger 0 1000 (min (max 500 0) 1000)\<rparr>
       = rw_node (IInteger 0 1000 500)"
    by (simp_all add: rw_node_def IsAvailable_def IsWritable_def)
  have g: "GetNode TLDevice ''DeviceLinkSpeed'' sample_acquirer = Some (rw_node (IInteger 0 5000 5000))"
    by (simp add: GetNode_def sample_cam t)
  note p = node_lookup_precedence [OF sample_cam sample_camera_ready, of "''DeviceLinkSpeed''" "PInt 500",
      THEN conjunct1, rule_format, OF d]
  note p2 = p [THEN conjunct2, THEN conjunct1]
  note p5 = p [THEN conjunct2, THEN conjunct2, THEN conjunct2, THEN conjunct2, THEN conjunct1]
  note p7 = p [THEN conjunct2, THEN conjunct2, THEN conjunct2, THEN conjunct2, THEN conjunct2,
      THEN conjunct2, rule_format, OF w(1), THEN conjunct1, rule_format, OF w(2), of 500]
  have 1: "fst (get_node_val ''DeviceLinkSpeed'' sample_acquirer) = Inr (PInt 1000)"
    using p2 r by simp
  have 2: "GetNode TLDevice ''DeviceLinkSpeed'' (snd (set_node_val ''DeviceLinkSpeed'' (PInt 500) sample_acquirer))
     = Some (rw_node (IInteger 0 5000 5000))"
    using p5 g by simp
  have 3: "fst (set_node_val ''DeviceLinkSpeed'' (PInt 500) sample_acquirer) = Inr ()"
    "GetNode Device ''DeviceLinkSpeed'' (snd (set_node_val ''DeviceLinkSpeed'' (PInt 500) sample_acquirer))
     = Some (rw_node (IInteger 0 1000 500))"
    using p7 w(3) by simp_all
  from node_lookup_precedence [OF sample_cam sample_camera_ready, of "''Temperature''" PNone] a
  have 4: "fst (get_node_val ''Temperature'' sample_acquirer) = Inl (ValueError (NodeNotAvailable ''Temperature''))"
    by simp
  from d t 1 2 3 4 show ?thesis by simp
qed

subsection \<open>The frame pump\<close>

lemma image_loop_skips:
  assumes "pending c = incs @ good # rest" and "list_all incomplete incs" and "\<not> incomplete good"
  shows "image_loop logger (c, lg) =
           (Inr good,
            (c\<lparr>pending := rest,
               next_image_calls := next_image_calls c + length incs + 1,
               released := released c @ incs\<rparr>,
             lg @ (if logger then map (\<lambda>i. (Warning, ImageIncomplete (image_status i))) incs else [])))"
  using assms
proof (induction incs arbitrary: c lg)
  case Nil
  then show ?case by (simp add: GetNextImage_def)
next
  case (Cons i incs)
  let ?c = "Release i (c\<lparr>pending := incs @ good # rest, next_image_calls := Suc (next_image_calls c)\<rparr>)"
  let ?lg = "if logger then lg @ [(Warning, ImageIncomplete (image_status i))] else lg"
  have p: "pending ?c = incs @ good # rest" by (simp add: Release_def)
  have step: "image_loop logger (c, lg) = image_loop logger (?c, ?lg)"
    using Cons.prems by (simp add: GetNextImage_def)
  show ?case
    unfolding step using Cons.IH [OF p, of ?lg] Cons.prems
    by (simp add: Release_def)
qed

declare image_loop.simps [simp del]

lemma image_loop_timeout:
  assumes "pending c = incs" and "list_all incomplete incs"
  shows "image_loop logger (c, lg) =
           (Inl SpinnakerException,
            (c\<lparr>pending := [],
               next_image_calls := next_image_calls c + length incs + 1,
               released := released c @ incs\<rparr>,
             lg @ (if logger then map (\<lambda>i. (Warning, ImageIncomplete (image_status i))) incs else [])))"
  using assms
proof (induction incs arbitrary: c lg)
  case Nil
  then show ?case by (simp add: image_loop.simps [of logger c lg] GetNextImage_def)
next
  case (Cons i incs)
  let ?c = "Release i (c\<lparr>pending := incs, next_image_calls := Suc (next_image_calls c)\<rparr>)"
  let ?lg = "if logger then lg @ [(Warning, ImageIncomplete (image_status i))] else lg"
  have p: "pending ?c = incs" by (simp add: Release_def)
  have step: "image_loop logger (c, lg) = image_loop logger (?c, ?lg)"
    using Cons.prems by (simp add: image_loop.simps [of logger c lg] GetNextImage_def)
  show ?case
    unfolding step using Cons.IH [OF p, of ?lg] Cons.prems
    by (simp add: Release_def)
qed

lemma image_loop_complete:
  "image_loop logger (c, lg) = (Inr img, s) \<Longrightarrow> \<not> incomplete img"
proof (induction logger "(c, lg)" arbitrary: c lg rule: image_loop.induct)
  case (1 logger c lg)
  show ?case
  proof (cases "GetNextImage c")
    case (Pair r c')
    show ?thesis
    proof (cases r)
      case (Inl e)
      with Pair "1.prems" show ?thesis by (simp add: image_loop.simps [of logger c lg])
    next
      case (Inr i)
      show ?thesis
      proof (cases "incomplete i")
        case True
        with Pair Inr "1.prems" "1.hyps" show ?thesis
          by (simp add: image_loop.simps [of logger c lg])
      next
        case False
        with Pair Inr "1.prems" show ?thesis by (simp add: image_loop.simps [of logger c lg])
      qed
    qed
  qed
qed

text \<open>
  C3. Let the current camera deliver \<open>incs\<close>, all reported incomplete, then \<open>good\<close>,
  reported complete. Then \<open>get_next_image\<close> returns the data and the time stamp of
  \<open>good\<close> (a 2-D array with a trailing axis added) after exactly
  \<open>length incs + 1\<close> calls of \<open>GetNextImage\<close>; the captures of \<open>incs\<close> have been
  released, in order, and \<open>good\<close> after them; the captures behind \<open>good\<close> are left
  untouched. When the camera delivers incomplete captures only and then times out,
  the exception leaves \<open>get_next_image\<close> with every capture handed out released.
  Whatever the camera delivers, the loop never ends on a capture reported incomplete.
\<close>

theorem get_next_image_skips_incomplete:
  assumes "cam_of acq = Some c"
  shows "(\<forall>incs good rest.
            pending c = incs @ good # rest \<and> list_all incomplete incs \<and> \<not> incomplete good \<longrightarrow>
              fst (get_next_image logger (acq, lg)) =
                Inr (if length (shape (array good)) = 2 then expand_dims (array good)
                     else array good, time_stamp good) \<and>
              cam_of (fst (snd (get_next_image logger (acq, lg)))) =
                Some (c\<lparr>pending := rest,
                        next_image_calls := next_image_calls c + length incs + 1,
                        released := released c @ incs @ [good]\<rparr>)) \<and>
         (list_all incomplete (pending c) \<longrightarrow>
              fst (get_next_image logger (acq, lg)) = Inl SpinnakerException \<and>
              cam_of (fst (snd (get_next_image logger (acq, lg)))) =
                Some (c\<lparr>pending := [],
                        next_image_calls := next_image_calls c + length (pending c) + 1,
                        released := released c @ pending c\<rparr>)) \<and>
         (\<forall>img s. image_loop logger (c, lg) = (Inr img, s) \<longrightarrow> \<not> incomplete img)"
proof (intro conjI allI impI)
  fix incs good rest
  assume a: "pending c = incs @ good # rest \<and> list_all incomplete incs \<and> \<not> incomplete good"
  then have l: "image_loop logger (c, lg) =
           (Inr good,
            (c\<lparr>pending := rest,
               next_image_calls := next_image_calls c + length incs + 1,
               released := released c @ incs\<rparr>,
             lg @ (if logger then map (\<lambda>i. (Warning, ImageIncomplete (image_status i))) incs else [])))"
    by (intro image_loop_skips) simp_all
  show "fst (get_next_image logger (acq, lg)) =
          Inr (if length (shape (array good)) = 2 then expand_dims (array good)
               else array good, time_stamp good)"
    using assms by (simp add: get_next_image_def l Let_def)
  show "cam_of (fst (snd (get_next_image logger (acq, lg)))) =
          Some (c\<lparr>pending := rest,
                  next_image_calls := next_image_calls c + length incs + 1,
                  released := released c @ incs @ [good]\<rparr>)"
    using assms by (simp add: get_next_image_def l Let_def cam_of_upd_cam Release_def)
next
  assume a: "list_all incomplete (pending c)"
  note l = image_loop_timeout [OF refl a, of logger lg]
  show "fst (get_next_image logger (acq, lg)) = Inl SpinnakerException"
    using assms by (simp add: get_next_image_def l)
  show "cam_of (fst (snd (get_next_image logger (acq, lg)))) =
          Some (c\<lparr>pending := [],
                  next_image_calls := next_image_calls c + length (pending c) + 1,
                  released := released c @ pending c\<rparr>)"
    using assms by (simp add: get_next_image_def l cam_of_upd_cam)
next
  fix img s
  assume "image_loop logger (c, lg) = (Inr img, s)"
  then show "\<not> incomplete img" by (rule image_loop_complete)
qed

lemma cam_of_single: "cam_of ((acquirer_init [c])\<lparr>current_device := Some 0\<rparr>) = Some c"
  by (simp add: acquirer_init_def cam_of_def)

theorem get_next_image_skips_incomplete_witness:
  "fst (get_next_image True
          ((acquirer_init [sample_camera\<lparr>pending := [frame True 1, frame True 2, frame False 3,
                                                     frame False 4]\<rparr>])\<lparr>current_device := Some 0\<rparr>, []))
     = Inr (\<lparr>shape = [2, 2, 1], pixels = [0, 0, 0, 0]\<rparr>, 3) \<and>
   map_option (\<lambda>c. (next_image_calls c, released c, pending c))
     (cam_of (fst (snd (get_next_image True
          ((acquirer_init [sample_camera\<lparr>pending := [frame True 1, frame True 2, frame False 3,
                                                     frame False 4]\<rparr>])\<lparr>current_device := Some 0\<rparr>, [])))))
     = Some (3, [frame True 1, frame True 2, frame False 3], [frame False 4])"
proof -
  let ?c = "sample_camera\<lparr>pending := [frame True 1, frame True 2, frame False 3, frame False 4]\<rparr>"
  note t = get_next_image_skips_incomplete [OF cam_of_single, of ?c True "[]",
      THEN conjunct1, rule_format, of "[frame True 1, frame True 2]" "frame False 3" "[frame False 4]"]
  have "pending ?c = [frame True 1, frame True 2] @ frame False 3 # [frame False 4] \<and>
        list_all incomplete [frame True 1, frame True 2] \<and> \<not> incomplete (frame False 3)"
    by (simp add: frame_def)
  from t [OF this] show ?thesis
    by (simp add: sample_camera_def frame_def expand_dims_def)
qed

subsection \<open>Time stamps\<close>

lemma get_next_image_complete:
  assumes "cam_of acq = Some c" and "pending c = img # rest" and "\<not> incomplete img"
  shows "get_next_image logger (acq, lg) =
           (Inr (if length (shape (array img)) = 2 then expand_dims (array img) else array img,
                 time_stamp img),
            (upd_cam (\<lambda>_. c\<lparr>pending := rest, next_image_calls := Suc (next_image_calls c),
                              released := released c @ [img]\<rparr>) acq, lg))"
  using assms image_loop_skips [of c "[]" img rest logger lg]
  by (simp add: get_next_image_def Let_def Release_def)

text \<open>One call of \<open>do_gst_push_src_fill\<close> when the next capture is complete.\<close>

lemma fill_complete:
  assumes "image_acquirer el = Some acq" and "cam_of acq = Some c"
    and "pending c = img # rest" and "\<not> incomplete img"
  shows "fst (fst (do_gst_push_src_fill b el)) = OK"
    and "pts (snd (fst (do_gst_push_src_fill b el))) =
           time_stamp img - (if timestamp_offset el = 0 then time_stamp img else timestamp_offset el)"
    and "duration (snd (fst (do_gst_push_src_fill b el))) =
           time_stamp img - (if timestamp_offset el = 0 then time_stamp img else previous_timestamp el)"
    and "timestamp_offset (snd (do_gst_push_src_fill b el)) =
           (if timestamp_offset el = 0 then time_stamp img else timestamp_offset el)"
    and "previous_timestamp (snd (do_gst_push_src_fill b el)) = time_stamp img"
    and "image_acquirer (snd (do_gst_push_src_fill b el)) =
           Some (upd_cam (\<lambda>_. c\<lparr>pending := rest, next_image_calls := Suc (next_image_calls c),
                                   released := released c @ [img]\<rparr>) acq)"
  using assms(1) get_next_image_complete [OF assms(2-4), of True "messages el"]
  by (simp_all add: do_gst_push_src_fill_def Let_def)

text \<open>Once the offset is not zero, no call changes it, whatever the camera delivers.\<close>

lemma fill_keeps_offset:
  assumes "timestamp_offset el \<noteq> 0"
  shows "timestamp_offset (snd (do_gst_push_src_fill b el)) = timestamp_offset el"
  using assms
  by (simp add: do_gst_push_src_fill_def Let_def split: option.splits prod.splits sum.splits)

lemma fill_buffers_keep_offset:
  assumes "timestamp_offset el \<noteq> 0"
  shows "\<forall>r \<in> set (fill_buffers bs el). timestamp_offset (snd r) = timestamp_offset el"
  using assms
proof (induction bs arbitrary: el)
  case Nil
  then show ?case by simp
next
  case (Cons b bs)
  let ?el1 = "snd (do_gst_push_src_fill b el)"
  have k: "timestamp_offset ?el1 = timestamp_offset el"
    using Cons.prems by (rule fill_keeps_offset)
  then have "timestamp_offset ?el1 \<noteq> 0" using Cons.prems by simp
  from Cons.IH [OF this] k show ?case by (simp add: Let_def)
qed

text \<open>
  C4. An element with a zero timestamp baseline whose camera delivers three complete
  captures with the capture times 100, 250 and 400 fills three buffers with the
  (presentation time, duration) pairs (0, 0), (150, 150) and (300, 150).
\<close>

theorem timestamp_baseline:
  assumes "image_acquirer el = Some acq" and "cam_of acq = Some c"
    and "timestamp_offset el = 0"
    and "pending c = f1 # f2 # f3 # rest"
    and "\<not> incomplete f1" and "\<not> incomplete f2" and "\<not> incomplete f3"
    and "time_stamp f1 = 100" and "time_stamp f2 = 250" and "time_stamp f3 = 400"
  shows "map (\<lambda>r. (fst (fst r), pts (snd (fst r)), duration (snd (fst r))))
           (fill_buffers [b1, b2, b3] el) = [(OK, 0, 0), (OK, 150, 150), (OK, 300, 150)]"
proof -
  let ?c1 = "c\<lparr>pending := f2 # f3 # rest, next_image_calls := Suc (next_image_calls c),
               released := released c @ [f1]\<rparr>"
  let ?acq1 = "upd_cam (\<lambda>_. ?c1) acq"
  let ?el1 = "snd (do_gst_push_src_fill b1 el)"
  note s1 = fill_complete [OF assms(1,2,4,5), of b1]
  have c1: "cam_of ?acq1 = Some ?c1" using assms(2) by (rule cam_of_upd_cam)
  have p1: "pending ?c1 = f2 # f3 # rest" by simp
  let ?c2 = "?c1\<lparr>pending := f3 # rest, next_image_calls := Suc (next_image_calls ?c1),
               released := released ?c1 @ [f2]\<rparr>"
  let ?acq2 = "upd_cam (\<lambda>_. ?c2) ?acq1"
  let ?el2 = "snd (do_gst_push_src_fill b2 ?el1)"
  note s2 = fill_complete [OF s1(6) c1 p1 assms(6), of b2]
  have c2: "cam_of ?acq2 = Some ?c2" using c1 by (rule cam_of_upd_cam)
  have p2: "pending ?c2 = f3 # rest" by simp
  note s3 = fill_complete [OF s2(6) c2 p2 assms(7), of b3]
  have o1: "timestamp_offset ?el1 = 100" "previous_timestamp ?el1 = 100"
    using s1(4,5) assms(3,8) by simp_all
  have o2: "timestamp_offset ?el2 = 100" "previous_timestamp ?el2 = 250"
    using s2(4,5) o1 assms(9) by simp_all
  have r1: "fst (fst (do_gst_push_src_fill b1 el)) = OK"
    "pts (snd (fst (do_gst_push_src_fill b1 el))) = 0"
    "duration (snd (fst (do_gst_push_src_fill b1 el))) = 0"
    using s1(1,2,3) assms(3,8) by simp_all
  have r2: "fst (fst (do_gst_push_src_fill b2 ?el1)) = OK"
    "pts (snd (fst (do_gst_push_src_fill b2 ?el1))) = 150"
    "duration (snd (fst (do_gst_push_src_fill b2 ?el1))) = 150"
    using s2(1,2,3) o1 assms(9) by simp_all
  have r3: "fst (fst (do_gst_push_src_fill b3 ?el2)) = OK"
    "pts (snd (fst (do_gst_push_src_fill b3 ?el2))) = 300"
    "duration (snd (fst (do_gst_push_src_fill b3 ?el2))) = 150"
    using s3(1,2,3) o2 assms(10) by simp_all
  show ?thesis
    by (simp add: Let_def r1 r2 r3)
qed

lemma element_on_acquirer:
  "image_acquirer (element_on c) = Some ((acquirer_init [c])\<lparr>current_device := Some 0\<rparr>)"
  "timestamp_offset (element_on c) = 0"
  by (simp_all add: element_on_def pyspinsrc_init_def)

theorem timestamp_baseline_witness:
  "map (\<lambda>r. (fst (fst r), pts (snd (fst r)), duration (snd (fst r))))
     (fill_buffers [empty_buffer, empty_buffer, empty_buffer]
        (element_on (sample_camera\<lparr>pending := [frame False 100, frame False 250, frame False 400]\<rparr>)))
   = [(OK, 0, 0), (OK, 150, 150), (OK, 300, 150)]"
  by (rule timestamp_baseline [OF element_on_acquirer(1) cam_of_single element_on_acquirer(2),
        of _ "frame False 100" "frame False 250" "frame False 400" "[]"])
     (simp_all add: frame_def)

subsection \<open>Properties of the element\<close>

text \<open>
  Every property but \<open>wb-blue-ratio\<close> reads back what was written: the getter has a
  branch for it.
\<close>

lemma property_round_trip:
  assumes "name \<in> set gproperties" and "name \<noteq> ''wb-blue-ratio''"
  shows "do_get_property name (snd (do_set_property name v el)) = Inr v"
  using assms
  by (auto simp: gproperties_def do_get_property_def do_set_property_def thenE_def bindE_def
      gst_message_def)

text \<open>
  C10 fails on the code for \<open>wb-blue-ratio\<close>: \<open>do_set_property\<close> stores the value in
  \<open>wb_blue\<close>, and \<open>do_get_property\<close>, which has no branch for the name, raises
  AttributeError instead of returning it.
\<close>

theorem wb_blue_ratio_not_readable:
  "fst (do_set_property ''wb-blue-ratio'' v el) = Inr () \<and>
   wb_blue (snd (do_set_property ''wb-blue-ratio'' v el)) = v \<and>
   do_get_property ''wb-blue-ratio'' (snd (do_set_property ''wb-blue-ratio'' v el))
     = Inl AttributeError"
  by (simp add: do_get_property_def do_set_property_def thenE_def bindE_def gst_message_def)

subsection \<open>Teardown\<close>

lemma on_device_fields [simp]:
  "current_device (snd (on_device call acq)) = current_device acq"
  "device_list (snd (on_device call acq)) = device_list acq"
  "instance_released (snd (on_device call acq)) = instance_released acq"
  "length (cameras (snd (on_device call acq))) = length (cameras acq)"
  by (simp_all add: on_device_def upd_cam_def split: option.splits sum.splits)

text \<open>The first half of \<open>_reset_cam\<close>: stopping and deinitializing a selected device.\<close>

lemma reset_cam_unfold:
  "reset_cam acq =
     (case (if device_selected acq then
              thenE
                (\<lambda>a. if IsStreaming a then on_device EndAcquisition a else (Inr (), a))
                (\<lambda>a. if IsInitialized a then on_device DeInit a else (Inr (), a)) acq
            else (Inr (), acq)) of
        (Inl e, a) \<Rightarrow> (Inl e, a)
      | (Inr u, a) \<Rightarrow>
          (Inr (), a\<lparr>device_node_map := None, tl_device_node_map := None,
                     tl_stream_node_map := None, current_device := None\<rparr>))"
  by (simp add: reset_cam_def thenE_def bindE_def split: prod.splits sum.splits)

lemma thenE_keeps:
  assumes "\<And>s. f (snd (m s)) = f s" and "\<And>s. f (snd (n s)) = f s"
  shows "f (snd (thenE m n s)) = f s"
proof (cases "m s")
  case (Pair r s')
  have s': "f s' = f s" using assms(1) [of s] Pair by simp
  show ?thesis
  proof (cases r)
    case (Inl e)
    with Pair s' show ?thesis by (simp add: thenE_def bindE_def)
  next
    case (Inr x)
    with Pair s' assms(2) [of s'] show ?thesis by (simp add: thenE_def bindE_def)
  qed
qed

lemma reset_cam_keeps_system:
  "device_list (snd (reset_cam acq)) = device_list acq"
  "instance_released (snd (reset_cam acq)) = instance_released acq"
proof -
  let ?stop = "\<lambda>a. if IsStreaming a then on_device EndAcquisition a else (Inr (), a)"
  let ?deinit = "\<lambda>a. if IsInitialized a then on_device DeInit a else (Inr (), a)"
  let ?close = "\<lambda>acq. if device_selected acq then thenE ?stop ?deinit acq else (Inr (), acq)"
  let ?clear = "\<lambda>acq. (Inr (),
          acq\<lparr>device_node_map := None, tl_device_node_map := None,
              tl_stream_node_map := None, current_device := None\<rparr>)"
  have r: "reset_cam = thenE ?close ?clear" by (simp add: reset_cam_def)
  have d1: "device_list (snd (?stop s)) = device_list s" for s by simp
  have d2: "device_list (snd (?deinit s)) = device_list s" for s by simp
  have d3: "device_list (snd (?close s)) = device_list s" for s
    using thenE_keeps [where f = device_list and m = ?stop and n = ?deinit, OF d1 d2] by simp
  have d4: "device_list (snd (?clear s)) = device_list s" for s by simp
  show "device_list (snd (reset_cam acq)) = device_list acq"
    unfolding r by (rule thenE_keeps [where f = device_list, OF d3 d4])
  have i1: "instance_released (snd (?stop s)) = instance_released s" for s by simp
  have i2: "instance_released (snd (?deinit s)) = instance_released s" for s by simp
  have i3: "instance_released (snd (?close s)) = instance_released s" for s
    using thenE_keeps [where f = instance_released and m = ?stop and n = ?deinit, OF i1 i2] by simp
  have i4: "instance_released (snd (?clear s)) = instance_released s" for s by simp
  show "instance_released (snd (reset_cam acq)) = instance_released acq"
    unfolding r by (rule thenE_keeps [where f = instance_released, OF i3 i4])
qed

lemma reset_cam_no_fault:
  assumes "\<forall>c. cam_of acq = Some c \<longrightarrow>
             \<not> List.member (faults c) CallEndAcquisition \<and> \<not> List.member (faults c) CallDeInit"
  shows "fst (reset_cam acq) = Inr ()"
proof (cases "cam_of acq")
  case None
  then show ?thesis by (simp add: reset_cam_unfold device_selected_def)
next
  case (Some c)
  with assms have f: "\<not> List.member (faults c) CallEndAcquisition" "\<not> List.member (faults c) CallDeInit"
    by simp_all
  show ?thesis
    using Some f
    by (simp add: reset_cam_unfold device_selected_def thenE_def bindE_def IsStreaming_def
        IsInitialized_def on_device_def EndAcquisition_def DeInit_def cam_of_upd_cam)
qed

text \<open>
  C8, as stated, fails: with the current device streaming and \<open>EndAcquisition\<close> raising,
  \<open>__del__\<close> ends in \<open>_reset_cam\<close>; the device list is not cleared and the SDK instance
  is not released.
\<close>

theorem teardown_stops_at_failure:
  "fst (acquirer_del ((acquirer_init [camera_stuck])\<lparr>current_device := Some 0\<rparr>))
     = Inl SpinnakerException \<and>
   device_list (snd (acquirer_del ((acquirer_init [camera_stuck])\<lparr>current_device := Some 0\<rparr>)))
     = [0] \<and>
   instance_released (snd (acquirer_del ((acquirer_init [camera_stuck])\<lparr>current_device := Some 0\<rparr>)))
     = False"
proof -
  let ?acq = "(acquirer_init [camera_stuck])\<lparr>current_device := Some 0\<rparr>"
  have c: "cam_of ?acq = Some camera_stuck" by (rule cam_of_single)
  have k: "EndAcquisition camera_stuck = Inl SpinnakerException"
    "cam_streaming camera_stuck" "cam_valid camera_stuck"
    by (simp_all add: EndAcquisition_def camera_stuck_def sample_camera_def)
  have e: "on_device EndAcquisition ?acq = (Inl SpinnakerException, ?acq)"
    by (simp add: on_device_def c k)
  have s: "IsStreaming ?acq" "device_selected ?acq"
    by (simp_all add: IsStreaming_def device_selected_def c k)
  have r: "reset_cam ?acq = (Inl SpinnakerException, ?acq)"
    by (simp add: reset_cam_def thenE_def bindE_def s e)
  have d: "acquirer_del ?acq = (Inl SpinnakerException, ?acq)"
    by (simp add: acquirer_del_def thenE_def bindE_def r)
  show ?thesis
    unfolding d by (simp add: acquirer_init_def)
qed

text \<open>
  C8, amended. Teardown is fail-fast. When neither \<open>EndAcquisition\<close> nor \<open>DeInit\<close> of
  the current device fails (or no device is selected), \<open>__del__\<close> returns normally with
  the device list cleared and the SDK instance released. When \<open>_reset_cam\<close> raises,
  \<open>__del__\<close> raises the same exception and the device list and the SDK instance are
  left as they were.
\<close>

theorem teardown_fail_fast:
  "((\<forall>c. cam_of acq = Some c \<longrightarrow>
        \<not> List.member (faults c) CallEndAcquisition \<and> \<not> List.member (faults c) CallDeInit) \<longrightarrow>
      fst (acquirer_del acq) = Inr () \<and>
      device_list (snd (acquirer_del acq)) = [] \<and>
      instance_released (snd (acquirer_del acq))) \<and>
   (\<forall>e. fst (reset_cam acq) = Inl e \<longrightarrow>
      fst (acquirer_del acq) = Inl e \<and>
      device_list (snd (acquirer_del acq)) = device_list acq \<and>
      instance_released (snd (acquirer_del acq)) = instance_released acq)"
proof (intro conjI allI impI)
  assume "\<forall>c. cam_of acq = Some c \<longrightarrow>
        \<not> List.member (faults c) CallEndAcquisition \<and> \<not> List.member (faults c) CallDeInit"
  then have "fst (reset_cam acq) = Inr ()" by (rule reset_cam_no_fault)
  then obtain a where r: "reset_cam acq = (Inr (), a)"
    by (cases "reset_cam acq") simp
  show "fst (acquirer_del acq) = Inr ()"
    and "device_list (snd (acquirer_del acq)) = []"
    and "instance_released (snd (acquirer_del acq))"
    by (simp_all add: acquirer_del_def thenE_def bindE_def r)
next
  fix e assume "fst (reset_cam acq) = Inl e"
  then obtain a where r: "reset_cam acq = (Inl e, a)"
    by (cases "reset_cam acq") simp
  have d: "acquirer_del acq = (Inl e, a)"
    by (simp add: acquirer_del_def thenE_def bindE_def r)
  show "fst (acquirer_del acq) = Inl e" by (simp add: d)
  show "device_list (snd (acquirer_del acq)) = device_list acq"
    using reset_cam_keeps_system(1) [of acq] by (simp add: d r)
  show "instance_released (snd (acquirer_del acq)) = instance_released acq"
    using reset_cam_keeps_system(2) [of acq] by (simp add: d r)
qed

theorem teardown_fail_fast_witness:
  "fst (acquirer_del sample_acquirer) = Inr () \<and>
   device_list (snd (acquirer_del sample_acquirer)) = [] \<and>
   instance_released (snd (acquirer_del sample_acquirer))"
  using teardown_fail_fast [of sample_acquirer]
  by (simp add: sample_cam sample_camera_def)

subsection \<open>What keeps the timestamp offset\<close>

lemma ko_bind:
  assumes "\<And>s. timestamp_offset (snd (m s)) = timestamp_offset s"
    and "\<And>x s. timestamp_offset (snd (n x s)) = timestamp_offset s"
  shows "timestamp_offset (snd (bindE m n s)) = timestamp_offset s"
proof (cases "m s")
  case (Pair r s')
  have s': "timestamp_offset s' = timestamp_offset s" using assms(1) [of s] Pair by simp
  show ?thesis
  proof (cases r)
    case (Inl e)
    with Pair s' show ?thesis by (simp add: bindE_def)
  next
    case (Inr x)
    with Pair s' assms(2) [of x s'] show ?thesis by (simp add: bindE_def)
  qed
qed

lemma ko_then:
  assumes "\<And>s. timestamp_offset (snd (m s)) = timestamp_offset s"
    and "\<And>s. timestamp_offset (snd (n s)) = timestamp_offset s"
  shows "timestamp_offset (snd (thenE m n s)) = timestamp_offset s"
  unfolding thenE_def using assms by (intro ko_bind)

lemma ko_if:
  assumes "\<And>s. timestamp_offset (snd (m s)) = timestamp_offset s"
    and "\<And>s. timestamp_offset (snd (n s)) = timestamp_offset s"
  shows "timestamp_offset (snd ((if b then m else n) s)) = timestamp_offset s"
  using assms by simp

lemma ko_when:
  assumes "\<And>s. timestamp_offset (snd (m s)) = timestamp_offset s"
  shows "timestamp_offset (snd (whenE cond m s)) = timestamp_offset s"
  using assms by (simp add: whenE_def split: sum.splits)

lemma ko_basic:
  "timestamp_offset (snd (returnE x s)) = timestamp_offset s"
  "timestamp_offset (snd (raiseE e s)) = timestamp_offset s"
  "timestamp_offset (snd (liftE r s)) = timestamp_offset s"
  "timestamp_offset (snd (gst_message lv msg s)) = timestamp_offset s"
  "timestamp_offset (snd (with_acquirer a s)) = timestamp_offset s"
  by (simp_all add: returnE_def raiseE_def liftE_def gst_message_def with_acquirer_def
      split: option.splits prod.splits)

lemma ko_warn:
  assumes "\<And>s. timestamp_offset (snd (m s)) = timestamp_offset s"
  shows "timestamp_offset (snd (warn_and_return d m s)) = timestamp_offset s"
proof (cases "m s")
  case (Pair r s')
  have "timestamp_offset s' = timestamp_offset s" using assms [of s] Pair by simp
  with Pair show ?thesis by (simp add: warn_and_return_def split: sum.splits)
qed

lemma ko_helpers:
  "timestamp_offset (snd (cam_node_available name s)) = timestamp_offset s"
  "timestamp_offset (snd (get_cam_node_val name s)) = timestamp_offset s"
  "timestamp_offset (snd (set_cam_node_val name v lg s)) = timestamp_offset s"
  "timestamp_offset (snd (execute_cam_node name lg s)) = timestamp_offset s"
  "timestamp_offset (snd (get_cam_node_entries name s)) = timestamp_offset s"
  "timestamp_offset (snd (get_cam_node_range name s)) = timestamp_offset s"
  unfolding cam_node_available_def get_cam_node_val_def set_cam_node_val_def
    execute_cam_node_def get_cam_node_entries_def get_cam_node_range_def
  by (intro ko_warn ko_then ko_bind ko_if ko_basic)+

lemma ko_try:
  assumes "timestamp_offset (snd (m s)) = timestamp_offset s"
  shows "timestamp_offset (snd (case m s of
            (Inl ex, el') \<Rightarrow> (False, el'\<lparr>messages := messages el' @ [(Error, Raised ex)]\<rparr>)
          | (Inr u, el') \<Rightarrow> (g u, el'))) = timestamp_offset s"
  using assms by (cases "m s") (simp split: sum.splits)

lemma ko_apply_properties_to_cam:
  "timestamp_offset (snd (apply_properties_to_cam el)) = timestamp_offset el"
  unfolding apply_properties_to_cam_def seqE.simps
  by (rule ko_try) (intro ko_then ko_bind ko_if ko_when ko_helpers ko_basic)

lemma ko_probe_formats:
  "timestamp_offset (snd (probe_formats fs caps s)) = timestamp_offset s"
proof (induction fs arbitrary: caps s)
  case Nil
  show ?case by (simp add: ko_basic)
next
  case (Cons f fs)
  show ?case
    unfolding probe_formats.simps
    by (intro ko_then ko_bind ko_helpers ko_basic Cons.IH)
qed

lemma ko_get_camera_caps:
  "timestamp_offset (snd (get_camera_caps s)) = timestamp_offset s"
  unfolding get_camera_caps_def
  by (intro ko_then ko_bind ko_helpers ko_basic ko_probe_formats)

lemma ko_do_start:
  "timestamp_offset (snd (do_start cams el)) = timestamp_offset el"
proof -
  have a: "timestamp_offset (snd ((\<lambda>el. case serial el of
                         PNone \<Rightarrow> with_acquirer (init_device None (Some 0)) el
                       | PStr s \<Rightarrow> with_acquirer (init_device (Some s) None) el
                       | _ \<Rightarrow> (Inl TypeError, el)) s)) = timestamp_offset s" for s
    by (simp add: ko_basic split: pyval.splits)
  have b: "timestamp_offset (snd ((\<lambda>el. case apply_properties_to_cam el of
                              (applied, el') \<Rightarrow>
                                if applied then
                                  bindE get_camera_caps
                                    (\<lambda>caps el''. (Inr True, el''\<lparr>camera_caps := Some caps\<rparr>)) el'
                                else (Inr False, el')) s)) = timestamp_offset s" for s
  proof (cases "apply_properties_to_cam s")
    case (Pair applied el')
    have e: "timestamp_offset el' = timestamp_offset s"
      using ko_apply_properties_to_cam [of s] Pair by simp
    have "timestamp_offset (snd (bindE get_camera_caps
              (\<lambda>caps el''. (Inr True, el''\<lparr>camera_caps := Some caps\<rparr>)) el')) = timestamp_offset el'"
      by (intro ko_bind ko_get_camera_caps) simp
    with Pair e show ?thesis by simp
  qed
  have c: "timestamp_offset (snd ((\<lambda>el. (Inr (), el\<lparr>image_acquirer := Some (acquirer_init cams)\<rparr>)) s))
             = timestamp_offset s" for s
    by simp
  show ?thesis
    unfolding do_start_def
    by (rule ko_try) (intro ko_then ko_bind ko_if ko_basic a b c)
qed

subsection \<open>The timestamp offset over a session and across sessions\<close>

text \<open>
  C5, as stated, fails in two ways. When the first capture time is 0 the guard
  \<open>timestamp_offset == 0\<close> still holds at the second frame, and the offset is assigned
  again (here it goes from 0 to 5). And the offset is zeroed in \<open>__init__\<close> only: in a
  session started after \<open>do_stop\<close> and \<open>do_start\<close> on an element whose first session
  left the offset at 100, no frame assigns it (captures stamped 1000 and 1150 leave it
  at 100).
\<close>

theorem timestamp_offset_reassigned:
  "map (\<lambda>r. timestamp_offset (snd r))
     (fill_buffers [empty_buffer, empty_buffer]
        (element_on (sample_camera\<lparr>pending := [frame False 0, frame False 5]\<rparr>)))
   = [0, 5] \<and>
   timestamp_offset stopped_element = 100 \<and>
   map (\<lambda>r. (fst (fst r), pts (snd (fst r)), timestamp_offset (snd r)))
     (fill_buffers [empty_buffer, empty_buffer]
        (snd (do_start [sample_camera\<lparr>pending := [frame False 1000, frame False 1150]\<rparr>]
                stopped_element)))
   = [(OK, 900, 100), (OK, 1050, 100)]"
proof -
  let ?c = "sample_camera\<lparr>pending := [frame False 0, frame False 5]\<rparr>"
  let ?el = "element_on ?c"
  let ?acq = "(acquirer_init [?c])\<lparr>current_device := Some 0\<rparr>"
  let ?c1 = "?c\<lparr>pending := [frame False 5], next_image_calls := Suc (next_image_calls ?c),
               released := released ?c @ [frame False 0]\<rparr>"
  have p: "pending ?c = frame False 0 # [frame False 5]" "\<not> incomplete (frame False 0)"
    by (simp_all add: frame_def)
  note s1 = fill_complete [OF element_on_acquirer(1) cam_of_single p, of empty_buffer]
  have c1: "cam_of (upd_cam (\<lambda>_. ?c1) ?acq) = Some ?c1"
    using cam_of_single by (rule cam_of_upd_cam)
  have p1: "pending ?c1 = frame False 5 # []" "\<not> incomplete (frame False 5)"
    by (simp_all add: frame_def)
  note s2 = fill_complete [OF s1(6) c1 p1, of empty_buffer]
  have o1: "timestamp_offset (snd (do_gst_push_src_fill empty_buffer ?el)) = 0"
    using s1(4) by (simp add: element_on_acquirer(2) frame_def)
  have o2: "timestamp_offset (snd (do_gst_push_src_fill empty_buffer
              (snd (do_gst_push_src_fill empty_buffer ?el)))) = 5"
    using s2(4) o1 by (simp add: frame_def)
  have first: "map (\<lambda>r. timestamp_offset (snd r)) (fill_buffers [empty_buffer, empty_buffer] ?el) = [0, 5]"
    by (simp add: Let_def o1 o2)
  have stopped: "timestamp_offset stopped_element = 100"
    by code_simp
  have second: "map (\<lambda>r. (fst (fst r), pts (snd (fst r)), timestamp_offset (snd r)))
     (fill_buffers [empty_buffer, empty_buffer]
        (snd (do_start [sample_camera\<lparr>pending := [frame False 1000, frame False 1150]\<rparr>]
                stopped_element)))
   = [(OK, 900, 100), (OK, 1050, 100)]"
    by code_simp
  from first stopped second show ?thesis by blast
qed

text \<open>
  C5, amended. On a frame the offset is assigned exactly when it is still 0 before that
  frame, and neither \<open>do_stop\<close> nor \<open>do_start\<close> resets it. So: once the offset is not
  0, no later call of \<open>do_gst_push_src_fill\<close> changes it, in this session or, after
  \<open>do_stop\<close> and \<open>do_start\<close>, in a later one, where it is therefore never assigned;
  a call that finds a complete capture (after any number of incomplete ones) leaves
  the offset at that capture's time if it was 0 before and unchanged otherwise; and
  when the offset is 0 at the first frame and the first capture time is not 0, the
  offset has that capture time after the first call and after every later call.
\<close>

theorem timestamp_offset_set_once:
  "(timestamp_offset el \<noteq> 0 \<longrightarrow>
      (\<forall>r \<in> set (fill_buffers bs el). timestamp_offset (snd r) = timestamp_offset el)) \<and>
   (\<forall>acq c incs good rest.
      image_acquirer el = Some acq \<and> cam_of acq = Some c \<and>
      pending c = incs @ good # rest \<and> list_all incomplete incs \<and> \<not> incomplete good \<longrightarrow>
        timestamp_offset (snd (do_gst_push_src_fill b el)) =
          (if timestamp_offset el = 0 then time_stamp good else timestamp_offset el) \<and>
        (timestamp_offset el = 0 \<and> time_stamp good \<noteq> 0 \<longrightarrow>
           (\<forall>r \<in> set (fill_buffers (b # bs) el). timestamp_offset (snd r) = time_stamp good))) \<and>
   timestamp_offset (snd (do_stop el)) = timestamp_offset el \<and>
   timestamp_offset (snd (do_start cams el)) = timestamp_offset el"
proof (intro conjI allI impI)
  assume "timestamp_offset el \<noteq> 0"
  then show "\<forall>r \<in> set (fill_buffers bs el). timestamp_offset (snd r) = timestamp_offset el"
    by (rule fill_buffers_keep_offset)
next
  fix acq c incs good rest
  assume a: "image_acquirer el = Some acq \<and> cam_of acq = Some c \<and>
      pending c = incs @ good # rest \<and> list_all incomplete incs \<and> \<not> incomplete good"
  let ?el1 = "snd (do_gst_push_src_fill b el)"
  have l: "image_loop True (c, messages el) =
           (Inr good,
            (c\<lparr>pending := rest,
               next_image_calls := next_image_calls c + length incs + 1,
               released := released c @ incs\<rparr>,
             messages el @ (if True then map (\<lambda>i. (Warning, ImageIncomplete (image_status i))) incs else [])))"
    using a by (intro image_loop_skips) simp_all
  show o1: "timestamp_offset ?el1 =
          (if timestamp_offset el = 0 then time_stamp good else timestamp_offset el)"
    using a by (simp add: do_gst_push_src_fill_def get_next_image_def l Let_def)
  assume z: "timestamp_offset el = 0 \<and> time_stamp good \<noteq> 0"
  with o1 have e: "timestamp_offset ?el1 = time_stamp good" by simp
  then have "timestamp_offset ?el1 \<noteq> 0" using z by simp
  from fill_buffers_keep_offset [OF this, of bs] e
  show "\<forall>r \<in> set (fill_buffers (b # bs) el). timestamp_offset (snd r) = time_stamp good"
    by (simp add: Let_def)
next
  show "timestamp_offset (snd (do_stop el)) = timestamp_offset el"
    by (simp add: do_stop_def)
  show "timestamp_offset (snd (do_start cams el)) = timestamp_offset el"
    by (rule ko_do_start)
qed

theorem timestamp_offset_set_once_witness:
  "map (\<lambda>r. timestamp_offset (snd r))
     (fill_buffers [empty_buffer, empty_buffer, empty_buffer]
        (element_on (sample_camera\<lparr>pending := [frame True 90, frame False 100, frame False 250,
                                                 frame False 0]\<rparr>)))
   = [100, 100, 100] \<and>
   map (\<lambda>r. timestamp_offset (snd r))
     (fill_buffers [empty_buffer, empty_buffer]
        (snd (do_start [sample_camera\<lparr>pending := [frame False 1000, frame False 1150]\<rparr>]
                stopped_element)))
   = [100, 100]"
proof -
  let ?c = "sample_camera\<lparr>pending := [frame True 90, frame False 100, frame False 250,
                                         frame False 0]\<rparr>"
  let ?cams = "[sample_camera\<lparr>pending := [frame False 1000, frame False 1150]\<rparr>]"
  let ?el = "snd (do_start ?cams stopped_element)"
  have h: "image_acquirer (element_on ?c) = Some ((acquirer_init [?c])\<lparr>current_device := Some 0\<rparr>) \<and>
           cam_of ((acquirer_init [?c])\<lparr>current_device := Some 0\<rparr>) = Some ?c \<and>
           pending ?c = [frame True 90] @ frame False 100 # [frame False 250, frame False 0] \<and>
           list_all incomplete [frame True 90] \<and> \<not> incomplete (frame False 100)"
    by (simp add: element_on_acquirer(1) cam_of_single frame_def)
  have z: "timestamp_offset (element_on ?c) = 0 \<and> time_stamp (frame False 100) \<noteq> 0"
    by (simp add: element_on_acquirer(2) frame_def)
  note fresh = timestamp_offset_set_once [of "element_on ?c" "[empty_buffer, empty_buffer]" empty_buffer,
      THEN conjunct2, THEN conjunct1, rule_format, OF h, THEN conjunct2, rule_format, OF z]
  have 1: "map (\<lambda>r. timestamp_offset (snd r))
     (fill_buffers [empty_buffer, empty_buffer, empty_buffer] (element_on ?c)) = [100, 100, 100]"
    using fresh by (simp add: frame_def Let_def)
  have s: "timestamp_offset stopped_element = 100" by code_simp
  have o: "timestamp_offset ?el = 100"
    using timestamp_offset_set_once [where el = stopped_element and cams = ?cams] s by simp
  then have nz: "timestamp_offset ?el \<noteq> 0" by simp
  note later = timestamp_offset_set_once [of ?el "[empty_buffer, empty_buffer]",
      THEN conjunct1, rule_format, OF nz]
  have 2: "map (\<lambda>r. timestamp_offset (snd r)) (fill_buffers [empty_buffer, empty_buffer] ?el) = [100, 100]"
    using later o by (simp add: Let_def)
  from 1 2 show ?thesis by blast
qed

subsection \<open>Opening a device\<close>










subsection \<open>Probing and applying caps on the sample cameras\<close>

text \<open>On the sample camera the probe offers both formats and puts \<open>Mono8\<close> back.\<close>

lemma probe_restores_sample_camera:
  "fst (get_camera_caps (element_on sample_camera)) =
     Inr [\<lparr>structure_name = ''video/x-raw'', format = ''RGB'', width_range = (16, 1440),
            height_range = (16, 1080), framerate_range = (1, 60)\<rparr>,
          \<lparr>structure_name = ''video/x-raw'', format = ''GRAY8'', width_range = (16, 1440),
            height_range = (16, 1080), framerate_range = (1, 60)\<rparr>] \<and>
   fst (get_cam_node_val ''PixelFormat'' (snd (get_camera_caps (element_on sample_camera))))
     = Inr (PStr ''Mono8'')"
  by code_simp

text \<open>
  C1 fails on the code. With the \<open>Width\<close> node not available, the range query of the
  first probed format gives \<open>(None, None)\<close>, \<open>range(None, None)\<close> raises TypeError, and
  the exception leaves \<open>get_camera_caps\<close> before the line that restores the format:
  the device started on \<open>Mono8\<close> and is left on \<open>RGB8\<close>. \<open>do_start\<close> catches the
  exception and reports failure with the device still on \<open>RGB8\<close>.
\<close>

theorem probe_leaves_pixel_format_changed:
  "fst (get_cam_node_val ''PixelFormat'' (element_on camera_without_width)) = Inr (PStr ''Mono8'') \<and>
   fst (get_camera_caps (element_on camera_without_width)) = Inl TypeError \<and>
   fst (get_cam_node_val ''PixelFormat'' (snd (get_camera_caps (element_on camera_without_width))))
     = Inr (PStr ''RGB8'') \<and>
   fst (do_start [camera_without_width] pyspinsrc_init) = False \<and>
   fst (get_cam_node_val ''PixelFormat'' (snd (do_start [camera_without_width] pyspinsrc_init)))
     = Inr (PStr ''RGB8'')"
  by code_simp

text \<open>
  The part of C7 that holds, on the sample camera: the optional settings whose nodes
  the camera lacks are logged as warnings and \<open>apply_properties_to_cam\<close> returns \<open>True\<close>.
\<close>

lemma optional_settings_skipped:
  "fst (apply_properties_to_cam (element_on sample_camera)) = True \<and>
   messages (snd (apply_properties_to_cam (element_on sample_camera))) =
     [(Info, Text ''Applying properties''),
      (Warning, Raised (ValueError (NodeNotAvailable ''UserSetSelector''))),
      (Warning, Raised (ValueError (NodeNotAvailable ''UserSetLoad''))),
      (Warning, Raised (ValueError (NodeNotAvailable ''StreamBufferHandlingMode''))),
      (Warning, Raised (ValueError (NodeNotAvailable ''StreamBufferCountMode''))),
      (Info, NodeValue ''StreamBufferCountManual'' (PInt 10)),
      (Warning, Raised (ValueError (NodeNotAvailable ''ExposureAuto''))),
      (Warning, Raised (ValueError (NodeNotAvailable ''GainAuto'')))]"
  by code_simp

text \<open>
  C7 fails on the code for the mandatory steps. With the \<open>PixelFormat\<close> node read-only,
  setting the pixel format raises the "not writable" ValueError inside
  \<open>set_cam_node_val\<close>, which logs it as a warning; \<open>apply_caps_to_cam\<close> never sees it
  and returns \<open>True\<close>, and \<open>do_set_caps\<close> starts the acquisition and returns \<open>True\<close> with
  the device still on \<open>Mono8\<close> although \<open>RGB\<close> was negotiated.
\<close>

theorem mandatory_step_failure_does_not_abort:
  "fst (apply_caps_to_cam ((element_on camera_locked_format)\<lparr>info := rgb_caps\<rparr>)) = Inr True \<and>
   fst (do_set_caps rgb_caps (element_on camera_locked_format)) = Inr True \<and>
   messages (snd (do_set_caps rgb_caps (element_on camera_locked_format))) =
     [(Info, Text ''Setting caps''), (Info, Text ''Applying caps.''),
      (Warning, Raised (ValueError (NotWritable KEnumeration))),
      (Info, NodeValue ''Height'' (PInt 1080)),
      (Info, NodeValue ''Width'' (PInt 1440)),
      (Info, NodeValue ''OffsetY'' (PInt 0)),
      (Info, NodeValue ''OffsetX'' (PInt 0)),
      (Info, NodeValue ''AcquisitionFrameRateEnable'' (PBool True)),
      (Info, NodeValue ''AcquisitionFrameRate'' (PFloat 30)),
      (Info, Text ''Acquisition Started'')] \<and>
   fst (get_cam_node_val ''PixelFormat'' (snd (do_set_caps rgb_caps (element_on camera_locked_format))))
     = Inr (PStr ''Mono8'') \<and>
   map_option IsStreaming (image_acquirer (snd (do_set_caps rgb_caps (element_on camera_locked_format))))
     = Some True"
  by code_simp

text \<open>
  The other part of C7 that holds: a failure to start the acquisition is a ValueError
  that \<open>start_streaming\<close> catches, and \<open>do_set_caps\<close> returns \<open>False\<close>.
\<close>

lemma acquisition_start_failure_aborts:
  "fst (do_set_caps rgb_caps (element_on camera_begin_fails)) = Inr False \<and>
   last (messages (snd (do_set_caps rgb_caps (element_on camera_begin_fails))))
     = (Error, Raised (ValueError SpinnakerError))"
  by code_simp

text \<open>
  When the close of the prior handle raises, \<open>init_device\<close> raises the same exception
  and does nothing more (see C8).
\<close>

lemma init_device_reset_raises:
  assumes "reset_cam acq = (Inl e, a)"
  shows "init_device s idx acq = (Inl e, a)"
  by (simp add: init_device_def thenE_def [of reset_cam] bindE_def assms)


end
